theory Spec2Isabelle
  imports Main
begin

section \<open>The nightly dashboard script (render.py)\<close>

text \<open>
  The script fetches pipelines, jobs and test reports from a GitLab server, aggregates
  them and renders one HTML file. The embedding follows render.py function by function.
  Python strings are byte strings here (the UTF-8 encoding of the text), Python integers
  are \<open>int\<close>. A JSON response is a record with the keys the script reads. Exceptions are
  values of type \<open>error\<close>; the network, the random generator, the template engine and
  the file system are explicit: the collaborators are the fields of \<open>env\<close>, what the
  run changes is the record \<open>world\<close>. An exception raised inside a collaborator is
  \<open>External\<close> with its name; the other errors are raised by the script's own operations.
  Calls to \<open>logging.info\<close> are left out.
\<close>

subsection \<open>Data\<close>

datatype error =
    HTTPError nat
  | IndexError
  | ZeroDivisionError
  | OverflowError
  | ValueError
  | External string

record pipeline_json =
  p_id :: int
  p_updated_at :: string

record job_json =
  j_web_url :: string
  j_status :: string
  j_name :: string
  j_stage :: string

record test_case_json =
  tc_status :: string
  tc_classname :: string
  tc_name :: string

record test_suite_json =
  ts_name :: string
  ts_test_cases :: "test_case_json list"

record test_report_json =
  total_count :: int
  failed_count :: int
  skipped_count :: int
  test_suites :: "test_suite_json list"

text \<open>The dataclass \<open>Job\<close>.\<close>

record Job =
  job_run_url :: string
  job_run_status :: string
  job_name :: string
  job_stage :: string
  teams :: string

text \<open>
  What \<open>requests.get\<close> returns: the status code and the result of \<open>response.json()\<close>,
  which raises when the body is not JSON.
\<close>

record 'a response =
  status_code :: nat
  json :: "string + 'a"

datatype request =
    GetPipelines int
  | GetJobs int int
  | GetTestReport int int

record world =
  requests :: "request list"
  draws :: nat
  files :: "string \<rightharpoonup> string"

subsection \<open>Constants\<close>

definition DMSC_NIGHTLY_PROJECT_ID :: int where
  "DMSC_NIGHTLY_PROJECT_ID = 301"

definition TEAMS :: "string list" where
  "TEAMS = [''ECDC'', ''SCIPP'', ''SWAT'', ''DST'', ''DONKI'', ''IDS'']"

subsection \<open>Exceptions and state\<close>

type_synonym 'a io = "world \<Rightarrow> (error + 'a) \<times> world"

definition io_return :: "'a \<Rightarrow> 'a io" where
  "io_return x w = (Inr x, w)"

definition io_raise :: "error \<Rightarrow> 'a io" where
  "io_raise e w = (Inl e, w)"

definition io_lift :: "error + 'a \<Rightarrow> 'a io" where
  "io_lift r w = (r, w)"

definition io_external :: "string + 'a \<Rightarrow> 'a io" where
  "io_external r w = (case r of Inl name \<Rightarrow> (Inl (External name), w) | Inr x \<Rightarrow> (Inr x, w))"

definition io_bind :: "'a io \<Rightarrow> ('a \<Rightarrow> 'b io) \<Rightarrow> 'b io" where
  "io_bind m f w = (case m w of (Inl e, w') \<Rightarrow> (Inl e, w') | (Inr x, w') \<Rightarrow> f x w')"

subsection \<open>Python floats\<close>

text \<open>
  A Python float is an IEEE 754 binary64 value. \<open>Num s m e\<close> is the finite value
  \<open>(-1)\<^sup>s * m * 2\<^sup>e\<close>, kept with \<open>m\<close> odd (or \<open>m = 0\<close>, \<open>e = 0\<close>), so that equal
  values are equal terms and the sign of zero is kept; \<open>Inf s\<close> is an infinity.
  \<open>round_binary64 a b\<close> rounds the fraction \<open>a / b\<close> to the nearest binary64 value,
  ties to even, and is \<open>None\<close> when the result is beyond the largest finite value.
\<close>

datatype pyfloat = Num bool nat int | Inf bool | NaN

fun bit_length :: "nat \<Rightarrow> nat" where
  "bit_length n = (if n = 0 then 0 else Suc (bit_length (n div 2)))"

declare bit_length.simps [simp del]

fun normalize_float :: "nat \<Rightarrow> int \<Rightarrow> nat \<times> int" where
  "normalize_float m e =
     (if m = 0 then (0, 0)
      else if even m then normalize_float (m div 2) (e + 1)
      else (m, e))"

declare normalize_float.simps [simp del]

definition round_half_even_div :: "nat \<Rightarrow> nat \<Rightarrow> nat" where
  "round_half_even_div a b =
     (let q = a div b; r = a mod b
      in if 2 * r < b then q
         else if b < 2 * r then q + 1
         else if even q then q else q + 1)"

definition floor_log2 :: "nat \<Rightarrow> nat \<Rightarrow> int" where
  "floor_log2 a b =
     (let k = int (bit_length a) - int (bit_length b)
      in if (if 0 \<le> k then b * 2 ^ nat k \<le> a else b \<le> a * 2 ^ nat (- k)) then k else k - 1)"

definition round_binary64 :: "nat \<Rightarrow> nat \<Rightarrow> (nat \<times> int) option" where
  "round_binary64 a b =
     (if a = 0 then Some (0, 0)
      else let E = max (floor_log2 a b) (- 1022) - 52;
               m = (if 0 \<le> E then round_half_even_div a (b * 2 ^ nat E)
                    else round_half_even_div (a * 2 ^ nat (- E)) b)
           in if 971 < E \<or> (E = 971 \<and> 2 ^ 53 \<le> m) then None
              else Some (normalize_float m E))"

text \<open>
  \<open>a / b\<close> on two Python integers: ZeroDivisionError on a zero divisor, OverflowError
  when the quotient is too large for a float, the correctly rounded quotient otherwise.
\<close>

definition py_truediv :: "int \<Rightarrow> int \<Rightarrow> error + pyfloat" where
  "py_truediv a b =
     (if b = 0 then Inl ZeroDivisionError
      else case round_binary64 (nat \<bar>a\<bar>) (nat \<bar>b\<bar>) of
             None \<Rightarrow> Inl OverflowError
           | Some (m, e) \<Rightarrow> Inr (Num ((a < 0) \<noteq> (b < 0)) m e))"

text \<open>The product of two floats; it overflows to an infinity and raises nothing.\<close>

fun py_float_mul :: "pyfloat \<Rightarrow> pyfloat \<Rightarrow> pyfloat" where
  "py_float_mul (Num s m e) (Num t n f) =
     (case (if 0 \<le> e + f then round_binary64 (m * n * 2 ^ nat (e + f)) 1
            else round_binary64 (m * n) (2 ^ nat (- (e + f)))) of
        None \<Rightarrow> Inf (s \<noteq> t)
      | Some (k, g) \<Rightarrow> Num (s \<noteq> t) k g)"
| "py_float_mul (Inf s) (Num t n f) = (if n = 0 then NaN else Inf (s \<noteq> t))"
| "py_float_mul (Num s m e) (Inf t) = (if m = 0 then NaN else Inf (s \<noteq> t))"
| "py_float_mul (Inf s) (Inf t) = Inf (s \<noteq> t)"
| "py_float_mul NaN y = NaN"
| "py_float_mul x NaN = NaN"

text \<open>The literals \<open>0.0\<close> and \<open>100\<close> (as a float: \<open>25 * 2\<^sup>2\<close>).\<close>

definition float_zero :: pyfloat where
  "float_zero = Num False 0 0"

definition float_100 :: pyfloat where
  "float_100 = Num False 25 2"

subsection \<open>Strings\<close>

definition digit_char :: "nat \<Rightarrow> char" where
  "digit_char d = ''0123456789'' ! d"

fun str_nat :: "nat \<Rightarrow> string" where
  "str_nat n = (if n < 10 then [digit_char n] else str_nat (n div 10) @ [digit_char (n mod 10)])"

declare str_nat.simps [simp del]

text \<open>\<open>str\<close> of an integer, as an f-string prints it.\<close>

definition str_int :: "int \<Rightarrow> string" where
  "str_int i = (if i < 0 then CHR ''-'' # str_nat (nat (- i)) else str_nat (nat i))"

definition pad2 :: "nat \<Rightarrow> string" where
  "pad2 n = (if n < 10 then CHR ''0'' # str_nat n else str_nat n)"

definition pad4 :: "nat \<Rightarrow> string" where
  "pad4 n = replicate (4 - length (str_nat n)) (CHR ''0'') @ str_nat n"

text \<open>\<open>sep.join(xs)\<close>.\<close>

fun join :: "string \<Rightarrow> string list \<Rightarrow> string" where
  "join sep [] = []"
| "join sep [x] = x"
| "join sep (x # y # ys) = x @ sep @ join sep (y # ys)"

text \<open>
  The format \<open>.2f\<close>: the exact value is rounded to two decimals, ties to even, and
  printed with its sign.
\<close>

definition format_2f :: "pyfloat \<Rightarrow> string" where
  "format_2f x =
     (case x of
        Num s m e \<Rightarrow>
          (let n = (if 0 \<le> e then m * 2 ^ nat e * 100
                    else round_half_even_div (m * 100) (2 ^ nat (- e)))
           in (if s then ''-'' else []) @ str_nat (n div 100) @ ''.'' @ pad2 (n mod 100))
      | Inf s \<Rightarrow> (if s then ''-inf'' else ''inf'')
      | NaN \<Rightarrow> ''nan'')"

subsection \<open>Percent-encoding: \<open>urllib.parse.quote\<close>\<close>

text \<open>
  \<open>quote\<close> with its default \<open>safe = '/'\<close> works byte by byte on the UTF-8 encoding:
  letters, digits and \<open>_.-~\<close> are kept, as is \<open>/\<close>; every other byte becomes \<open>%XX\<close>
  with two upper-case hexadecimal digits.
\<close>

definition always_safe :: "char \<Rightarrow> bool" where
  "always_safe c \<longleftrightarrow>
     c \<in> set (''ABCDEFGHIJKLMNOPQRSTUVWXYZ'' @ ''abcdefghijklmnopqrstuvwxyz'' @
              ''0123456789'' @ ''_.-~'')"

definition hex_digit :: "nat \<Rightarrow> char" where
  "hex_digit n = ''0123456789ABCDEF'' ! n"

definition quote_byte :: "char \<Rightarrow> string" where
  "quote_byte c =
     (if always_safe c \<or> c = CHR ''/'' then [c]
      else [CHR ''%'', hex_digit (of_char c div 16), hex_digit (of_char c mod 16)])"

definition quote :: "string \<Rightarrow> string" where
  "quote s = concat (map quote_byte s)"

text \<open>
  The decoder of percent-encoding, \<open>urllib.parse.unquote\<close> on well-formed input; it is
  not called by the script and only serves to state what an encoded name stands for.
\<close>

definition hex_val :: "char \<Rightarrow> nat option" where
  "hex_val c =
     (let n = of_char c :: nat
      in if 48 \<le> n \<and> n \<le> 57 then Some (n - 48)
         else if 65 \<le> n \<and> n \<le> 70 then Some (n - 55)
         else None)"

fun percent_decode :: "string \<Rightarrow> string option" where
  "percent_decode [] = Some []"
| "percent_decode (c # cs) =
     (if c = CHR ''%'' then
        (case cs of
           h # l # rest \<Rightarrow>
             (case (hex_val h, hex_val l, percent_decode rest) of
                (Some a, Some b, Some r) \<Rightarrow> Some (char_of (16 * a + b) # r)
              | _ \<Rightarrow> None)
         | _ \<Rightarrow> None)
      else map_option ((#) c) (percent_decode cs))"

subsection \<open>Dates: \<open>str.replace\<close>, \<open>datetime.fromisoformat\<close>, \<open>strftime\<close>\<close>

record datetime =
  dt_year :: nat
  dt_month :: nat
  dt_day :: nat
  dt_hour :: nat
  dt_minute :: nat
  dt_second :: nat
  dt_microsecond :: nat
  dt_utcoffset :: "int option"

text \<open>\<open>s.replace("Z", "+00:00")\<close>: every \<open>Z\<close> of the string is replaced.\<close>

definition replace_Z :: "string \<Rightarrow> string" where
  "replace_Z s = concat (map (\<lambda>c. if c = CHR ''Z'' then ''+00:00'' else [c]) s)"

definition digit_val :: "char \<Rightarrow> nat option" where
  "digit_val c = (let n = of_char c :: nat in if 48 \<le> n \<and> n \<le> 57 then Some (n - 48) else None)"

fun parse_digits :: "string \<Rightarrow> nat \<Rightarrow> nat option" where
  "parse_digits [] acc = Some acc"
| "parse_digits (c # cs) acc =
     (case digit_val c of None \<Rightarrow> None | Some d \<Rightarrow> parse_digits cs (10 * acc + d))"

definition parse_nat :: "string \<Rightarrow> nat option" where
  "parse_nat s = (if s = [] then None else parse_digits s 0)"

definition is_leap :: "nat \<Rightarrow> bool" where
  "is_leap y \<longleftrightarrow> y mod 4 = 0 \<and> (y mod 100 \<noteq> 0 \<or> y mod 400 = 0)"

definition days_in_month :: "nat \<Rightarrow> nat \<Rightarrow> nat" where
  "days_in_month y m =
     (if m = 2 then (if is_leap y then 29 else 28)
      else if m = 4 \<or> m = 6 \<or> m = 9 \<or> m = 11 then 30 else 31)"

text \<open>
  \<open>datetime.fromisoformat\<close> on the timestamps a GitLab server sends, once \<open>Z\<close> is replaced:
  \<open>YYYY-MM-DD\<close>, one separator character, \<open>HH:MM:SS\<close>, an optional fraction of three or six
  digits and an optional offset \<open>+HH:MM\<close> or \<open>-HH:MM\<close>, each field in its range. The model
  answers ValueError on every other string; Python accepts some further ISO 8601 forms,
  which differ between its versions.
\<close>

definition parse_fraction :: "string \<Rightarrow> (nat \<times> string) option" where
  "parse_fraction s =
     (case s of
        [] \<Rightarrow> Some (0, [])
      | c # cs \<Rightarrow>
          if c = CHR ''.'' then
            (let ds = takeWhile (\<lambda>d. digit_val d \<noteq> None) cs; rest = drop (length ds) cs
             in case parse_nat ds of
                  None \<Rightarrow> None
                | Some f \<Rightarrow>
                    if length ds = 3 then Some (f * 1000, rest)
                    else if length ds = 6 then Some (f, rest)
                    else None)
          else Some (0, s))"

definition parse_offset :: "string \<Rightarrow> int option option" where
  "parse_offset s =
     (if s = [] then Some None
      else if length s = 6 \<and> (s ! 0 = CHR ''+'' \<or> s ! 0 = CHR ''-'') \<and> s ! 3 = CHR '':'' then
        (case (parse_nat (take 2 (drop 1 s)), parse_nat (drop 4 s)) of
           (Some h, Some m) \<Rightarrow>
             if h < 24 \<and> m < 60 then
               Some (Some ((if s ! 0 = CHR ''-'' then - 1 else 1) * int (60 * h + m)))
             else None
         | _ \<Rightarrow> None)
      else None)"

definition fromisoformat :: "string \<Rightarrow> error + datetime" where
  "fromisoformat s =
     (if length s < 19 \<or> s ! 4 \<noteq> CHR ''-'' \<or> s ! 7 \<noteq> CHR ''-'' \<or>
         s ! 13 \<noteq> CHR '':'' \<or> s ! 16 \<noteq> CHR '':'' then Inl ValueError
      else
        case (parse_nat (take 4 s), parse_nat (take 2 (drop 5 s)), parse_nat (take 2 (drop 8 s)),
              parse_nat (take 2 (drop 11 s)), parse_nat (take 2 (drop 14 s)),
              parse_nat (take 2 (drop 17 s)), parse_fraction (drop 19 s)) of
          (Some y, Some mo, Some d, Some h, Some mi, Some sec, Some (us, rest)) \<Rightarrow>
            (case parse_offset rest of
               None \<Rightarrow> Inl ValueError
             | Some off \<Rightarrow>
                 if 1 \<le> y \<and> y \<le> 9999 \<and> 1 \<le> mo \<and> mo \<le> 12 \<and> 1 \<le> d \<and> d \<le> days_in_month y mo \<and>
                    h < 24 \<and> mi < 60 \<and> sec < 60
                 then Inr \<lparr>dt_year = y, dt_month = mo, dt_day = d, dt_hour = h, dt_minute = mi,
                           dt_second = sec, dt_microsecond = us, dt_utcoffset = off\<rparr>
                 else Inl ValueError)
        | _ \<Rightarrow> Inl ValueError)"

definition month_name :: "nat \<Rightarrow> string" where
  "month_name m =
     [''January'', ''February'', ''March'', ''April'', ''May'', ''June'', ''July'', ''August'',
      ''September'', ''October'', ''November'', ''December''] ! (m - 1)"

text \<open>
  \<open>date.strftime("%B %d, %Y %I:%M %p")\<close> in the C locale: month name, day of two digits,
  year, hour on the 12-hour clock, minute, and AM or PM. (Below the year 1000 the C library
  decides how \<open>%Y\<close> is padded; the model pads to four digits.)
\<close>

definition strftime :: "datetime \<Rightarrow> string" where
  "strftime dt =
     month_name (dt_month dt) @ '' '' @ pad2 (dt_day dt) @ '', '' @ pad4 (dt_year dt) @ '' '' @
     pad2 (let h = dt_hour dt mod 12 in if h = 0 then 12 else h) @ '':'' @ pad2 (dt_minute dt) @
     '' '' @ (if dt_hour dt < 12 then ''AM'' else ''PM'')"

subsection \<open>The collaborators\<close>

text \<open>The keyword arguments of \<open>template.render\<close>.\<close>

record template_context =
  ctx_gitlab_tests :: "Job list"
  ctx_failed_tests :: "Job list"
  ctx_failed_job_percentage :: string
  ctx_pipeline_end_time :: string
  ctx_teams :: "string list"
  ctx_failing_test :: "int list"
  ctx_pipeline_run_ids :: "int list"
  ctx_skipped_tests :: "int list"
  ctx_number_of_tests :: "int list"
  ctx_pipeline_id :: int
  ctx_skipped_test_suites :: "(string \<times> string \<times> string) list"

text \<open>
  The server answers the \<open>n\<close>-th request of the run (\<open>requests.get\<close> raises, or returns a
  response); \<open>rnd\<close> is the sequence of random draws; \<open>get_template\<close> is the loaded template
  \<open>templates/dashboard.html\<close>, a function that renders a context, or the error of loading
  it; \<open>writable\<close> says whether a path can be opened for writing.
\<close>

record env =
  pipelines_api :: "nat \<Rightarrow> int \<Rightarrow> string + pipeline_json list response"
  jobs_api :: "nat \<Rightarrow> int \<Rightarrow> int \<Rightarrow> string + job_json list response"
  test_report_api :: "nat \<Rightarrow> int \<Rightarrow> int \<Rightarrow> string + test_report_json response"
  rnd :: "nat \<Rightarrow> nat"
  get_template :: "string + (template_context \<Rightarrow> string + string)"
  writable :: "string \<Rightarrow> bool"

definition http_get :: "(nat \<Rightarrow> string + 'a response) \<Rightarrow> request \<Rightarrow> 'a response io" where
  "http_get srv req w =
     io_external (srv (length (requests w))) (w\<lparr>requests := requests w @ [req]\<rparr>)"

text \<open>\<open>response.raise_for_status()\<close> raises HTTPError on a status from 400 to 599.\<close>

definition raise_for_status :: "'a response \<Rightarrow> unit io" where
  "raise_for_status r =
     (if 400 \<le> status_code r \<and> status_code r < 600 then io_raise (HTTPError (status_code r))
      else io_return ())"

text \<open>
  \<open>random.choices(population, k=k)\<close>: \<open>k\<close> draws with replacement, each the element at
  an index below the length of the population.
\<close>

definition random_choice :: "env \<Rightarrow> string list \<Rightarrow> string io" where
  "random_choice env population w =
     (if population = [] then (Inl IndexError, w)
      else (Inr (population ! (rnd env (draws w) mod length population)),
            w\<lparr>draws := Suc (draws w)\<rparr>))"

fun random_choices :: "env \<Rightarrow> string list \<Rightarrow> nat \<Rightarrow> string list io" where
  "random_choices env population 0 = io_return []"
| "random_choices env population (Suc k) =
     io_bind (random_choice env population) (\<lambda>x.
     io_bind (random_choices env population k) (\<lambda>xs.
     io_return (x # xs)))"

definition write_file :: "env \<Rightarrow> string \<Rightarrow> string \<Rightarrow> unit io" where
  "write_file env filename content w =
     (if writable env filename then (Inr (), w\<lparr>files := (files w)(filename \<mapsto> content)\<rparr>)
      else (Inl (External ''OSError''), w))"

subsection \<open>API functions\<close>

definition get_pipelines :: "env \<Rightarrow> int \<Rightarrow> (pipeline_json \<times> int list) io" where
  "get_pipelines env project_id =
     io_bind (http_get (\<lambda>n. pipelines_api env n project_id) (GetPipelines project_id)) (\<lambda>response.
     io_bind (raise_for_status response) (\<lambda>_.
     io_bind (io_external (json response)) (\<lambda>pipelines.
     io_bind (io_lift (case pipelines of [] \<Rightarrow> Inl IndexError | p # _ \<Rightarrow> Inr p)) (\<lambda>latest_pipeline.
     let last_50_pipelines = map p_id (take 50 pipelines)
     in io_return (latest_pipeline, last_50_pipelines)))))"

definition get_jobs :: "env \<Rightarrow> int \<Rightarrow> int \<Rightarrow> job_json list io" where
  "get_jobs env project_id pipeline_id =
     io_bind (http_get (\<lambda>n. jobs_api env n project_id pipeline_id)
                (GetJobs project_id pipeline_id)) (\<lambda>response.
     io_bind (raise_for_status response) (\<lambda>_.
     io_external (json response)))"

definition get_test_report :: "env \<Rightarrow> int \<Rightarrow> int \<Rightarrow> test_report_json io" where
  "get_test_report env project_id pipeline_id =
     io_bind (http_get (\<lambda>n. test_report_api env n project_id pipeline_id)
                (GetTestReport project_id pipeline_id)) (\<lambda>response.
     io_bind (raise_for_status response) (\<lambda>_.
     io_external (json response)))"

subsection \<open>The loops of \<open>main\<close>\<close>

text \<open>Lines 70 to 83: the jobs are put into three buckets.\<close>

fun bucket_jobs ::
  "env \<Rightarrow> job_json list \<Rightarrow> Job list \<times> Job list \<times> Job list \<Rightarrow> (Job list \<times> Job list \<times> Job list) io"
where
  "bucket_jobs env [] acc = io_return acc"
| "bucket_jobs env (job # jobs) (success, failed, others) =
     io_bind (random_choices env TEAMS 2) (\<lambda>picks.
       let temp_teams = join '', '' picks;
           job_obj = \<lparr>job_run_url = j_web_url job, job_run_status = j_status job,
                      job_name = j_name job, job_stage = j_stage job, teams = temp_teams\<rparr>
       in if j_status job = ''success'' then
            bucket_jobs env jobs (success @ [job_obj], failed, others)
          else if j_status job = ''failed'' then
            bucket_jobs env jobs (success, failed @ [job_obj], others)
          else
            bucket_jobs env jobs (success, failed, others @ [job_obj\<lparr>job_run_status := []\<rparr>]))"

text \<open>Lines 97 to 99: \<open>(failed_tests / total_tests * 100) if total_tests else 0.0\<close>.\<close>

definition failed_job_percentage :: "int \<Rightarrow> int \<Rightarrow> error + pyfloat" where
  "failed_job_percentage failed_tests total_tests =
     (if total_tests \<noteq> 0 then
        (case py_truediv failed_tests total_tests of
           Inl e \<Rightarrow> Inl e
         | Inr q \<Rightarrow> Inr (py_float_mul q float_100))
      else Inr float_zero)"

type_synonym run_tuple = "int \<times> int \<times> pyfloat \<times> int \<times> int"

text \<open>Lines 91 to 102: one test report is fetched for each pipeline id.\<close>

fun build_run_chart :: "env \<Rightarrow> int list \<Rightarrow> run_tuple list \<Rightarrow> run_tuple list io" where
  "build_run_chart env [] run_chart = io_return run_chart"
| "build_run_chart env (pid # pids) run_chart =
     io_bind (get_test_report env DMSC_NIGHTLY_PROJECT_ID pid) (\<lambda>test_report.
       let total_tests = total_count test_report;
           failed_tests = failed_count test_report;
           skipped_tests = skipped_count test_report
       in io_bind (io_lift (failed_job_percentage failed_tests total_tests)) (\<lambda>percentage.
            build_run_chart env pids
              (run_chart @ [(pid, total_tests, percentage, failed_tests, skipped_tests)])))"

text \<open>Lines 91 to 104: the loop from an empty list, then \<open>run_chart.reverse()\<close>.\<close>

definition run_chart_series :: "env \<Rightarrow> int list \<Rightarrow> run_tuple list io" where
  "run_chart_series env last_50 =
     io_bind (build_run_chart env last_50 []) (\<lambda>run_chart. io_return (rev run_chart))"

text \<open>Lines 108 to 116: the skipped test cases of every suite.\<close>

definition job_name_url :: "int \<Rightarrow> string \<Rightarrow> string" where
  "job_name_url pipeline_id name =
     ''https://git.esss.dk/dmsc-nightly/dmsc-nightly/-/pipelines/'' @ str_int pipeline_id @
     ''/test_report?job_name='' @ quote name"

fun collect_cases ::
  "string \<Rightarrow> test_case_json list \<Rightarrow> (string \<times> string \<times> string) list
     \<Rightarrow> (string \<times> string \<times> string) list"
where
  "collect_cases url [] skipped_test_suites = skipped_test_suites"
| "collect_cases url (test_cases # rest) skipped_test_suites =
     (if tc_status test_cases = ''skipped'' then
        collect_cases url rest
          (skipped_test_suites @ [(tc_classname test_cases, tc_name test_cases, url)])
      else collect_cases url rest skipped_test_suites)"

fun collect_skipped ::
  "int \<Rightarrow> test_suite_json list \<Rightarrow> (string \<times> string \<times> string) list
     \<Rightarrow> (string \<times> string \<times> string) list"
where
  "collect_skipped pipeline_id [] skipped_test_suites = skipped_test_suites"
| "collect_skipped pipeline_id (test # rest) skipped_test_suites =
     (let job_name = ts_name test
      in collect_skipped pipeline_id rest
           (collect_cases (job_name_url pipeline_id job_name) (ts_test_cases test)
              skipped_test_suites))"

text \<open>\<open>xs[-1]\<close>.\<close>

definition py_last :: "'a list \<Rightarrow> error + 'a" where
  "py_last xs = (if xs = [] then Inl IndexError else Inr (last xs))"

subsection \<open>\<open>main\<close>\<close>

text \<open>
  \<open>prepare\<close> is \<open>main\<close> from line 66 to line 129: it ends with the loaded template and
  the context that \<open>main\<close> passes to it. \<open>main\<close> renders and writes the file.
  The initial \<open>world\<close> of a run is \<open>world0\<close>.
\<close>

definition prepare :: "env \<Rightarrow> ((template_context \<Rightarrow> string + string) \<times> template_context) io" where
  "prepare env =
     io_bind (get_pipelines env DMSC_NIGHTLY_PROJECT_ID) (\<lambda>(pipeline, last_50).
     let pipeline_id = p_id pipeline in
     io_bind (get_jobs env DMSC_NIGHTLY_PROJECT_ID pipeline_id) (\<lambda>jobs.
     io_bind (bucket_jobs env jobs ([], [], [])) (\<lambda>(success, failed, others).
     let all_jobs = success @ failed @ others in
     io_bind (run_chart_series env last_50) (\<lambda>run_chart.
     io_bind (get_test_report env DMSC_NIGHTLY_PROJECT_ID pipeline_id) (\<lambda>last_run_test_report.
     let skipped_test_suites =
           collect_skipped pipeline_id (test_suites last_run_test_report) [] in
     io_bind (io_external (get_template env)) (\<lambda>template.
     io_bind (io_lift (fromisoformat (replace_Z (p_updated_at pipeline)))) (\<lambda>date.
     let formatted_date = strftime date @ '' UTC'';
         percentage_data = map (\<lambda>(i0, i1, i2, i3, i4). i2) run_chart in
     io_bind (io_lift (py_last percentage_data)) (\<lambda>last_percentage.
     io_return (template,
       \<lparr>ctx_gitlab_tests = all_jobs,
        ctx_failed_tests = failed,
        ctx_failed_job_percentage = format_2f last_percentage @ ''%'',
        ctx_pipeline_end_time = formatted_date,
        ctx_teams = TEAMS,
        ctx_failing_test = map (\<lambda>(i0, i1, i2, i3, i4). i3) run_chart,
        ctx_pipeline_run_ids = map (\<lambda>(i0, i1, i2, i3, i4). i0) run_chart,
        ctx_skipped_tests = map (\<lambda>(i0, i1, i2, i3, i4). i4) run_chart,
        ctx_number_of_tests = map (\<lambda>(i0, i1, i2, i3, i4). i1) run_chart,
        ctx_pipeline_id = pipeline_id,
        ctx_skipped_test_suites = skipped_test_suites\<rparr>)))))))))"

definition main :: "env \<Rightarrow> unit io" where
  "main env =
     io_bind (prepare env) (\<lambda>(template, ctx).
     io_bind (io_external (template ctx)) (\<lambda>content.
     write_file env ''render/rendered.html'' content))"

definition world0 :: world where
  "world0 = \<lparr>requests = [], draws = 0, files = Map.empty\<rparr>"

subsection \<open>Notions used in the statements\<close>

text \<open>
  What a fetch makes of the server's answer: the error of \<open>requests.get\<close>, HTTPError on a
  status from 400 to 599, the error of \<open>response.json()\<close>, or the decoded body.
\<close>

definition response_result :: "string + 'a response \<Rightarrow> error + 'a" where
  "response_result r =
     (case r of
        Inl name \<Rightarrow> Inl (External name)
      | Inr resp \<Rightarrow>
          if 400 \<le> status_code resp \<and> status_code resp < 600
          then Inl (HTTPError (status_code resp))
          else (case json resp of Inl name \<Rightarrow> Inl (External name) | Inr x \<Rightarrow> Inr x))"

text \<open>
  The team label of a job whose two draws start at draw \<open>d\<close>, and the \<open>Job\<close> objects
  that the bucket loop builds, in the order of the fetched jobs.
\<close>

definition team_label :: "env \<Rightarrow> nat \<Rightarrow> string" where
  "team_label env d =
     TEAMS ! (rnd env d mod length TEAMS) @ '', '' @ TEAMS ! (rnd env (Suc d) mod length TEAMS)"

fun job_objs :: "env \<Rightarrow> nat \<Rightarrow> job_json list \<Rightarrow> Job list" where
  "job_objs env d [] = []"
| "job_objs env d (job # jobs) =
     \<lparr>job_run_url = j_web_url job, job_run_status = j_status job, job_name = j_name job,
      job_stage = j_stage job, teams = team_label env d\<rparr> # job_objs env (d + 2) jobs"

text \<open>
  The tuple that the history loop builds for pipeline \<open>pid\<close> when its test report is the
  answer to request number \<open>n\<close>.
\<close>

definition run_entry :: "env \<Rightarrow> nat \<Rightarrow> int \<Rightarrow> error + run_tuple" where
  "run_entry env n pid =
     (case response_result (test_report_api env n DMSC_NIGHTLY_PROJECT_ID pid) of
        Inl e \<Rightarrow> Inl e
      | Inr r \<Rightarrow>
          (case failed_job_percentage (failed_count r) (total_count r) of
             Inl e \<Rightarrow> Inl e
           | Inr p \<Rightarrow> Inr (pid, total_count r, p, failed_count r, skipped_count r)))"

text \<open>
  The errors that come from a fetch or another collaborator.
\<close>

fun fetch_error :: "error \<Rightarrow> bool" where
  "fetch_error (External name) = True"
| "fetch_error (HTTPError code) = True"
| "fetch_error e = False"

text \<open>
  The status code of the server's answer to request number \<open>n\<close>, and the property of a
  computation that a status from 400 to 599 ends it: the request that got it is the last
  one, the result is that HTTPError, and no file is touched.
\<close>

fun server_status :: "env \<Rightarrow> nat \<Rightarrow> request \<Rightarrow> nat option" where
  "server_status env n (GetPipelines p) =
     (case pipelines_api env n p of Inl name \<Rightarrow> None | Inr r \<Rightarrow> Some (status_code r))"
| "server_status env n (GetJobs p i) =
     (case jobs_api env n p i of Inl name \<Rightarrow> None | Inr r \<Rightarrow> Some (status_code r))"
| "server_status env n (GetTestReport p i) =
     (case test_report_api env n p i of Inl name \<Rightarrow> None | Inr r \<Rightarrow> Some (status_code r))"

definition aborts_on_http_error :: "env \<Rightarrow> 'a io \<Rightarrow> bool" where
  "aborts_on_http_error env m \<longleftrightarrow>
     (\<forall>w r w'. m w = (r, w') \<longrightarrow>
        (\<exists>new. requests w' = requests w @ new) \<and> files w' = files w \<and>
        (\<forall>k code. length (requests w) \<le> k \<and> k < length (requests w') \<and>
           server_status env k (requests w' ! k) = Some code \<and> 400 \<le> code \<and> code < 600 \<longrightarrow>
           r = Inl (HTTPError code) \<and> length (requests w') = Suc k))"

subsection \<open>A concrete run\<close>

text \<open>
  A server for examples: it answers every request with the status \<open>code\<close>, the pipelines
  \<open>ps\<close>, three jobs, and a test report that depends on the pipeline id.
\<close>

definition demo_jobs :: "job_json list" where
  "demo_jobs =
     [\<lparr>j_web_url = ''u1'', j_status = ''failed'', j_name = ''test'', j_stage = ''s2''\<rparr>,
      \<lparr>j_web_url = ''u2'', j_status = ''running'', j_name = ''deploy'', j_stage = ''s3''\<rparr>,
      \<lparr>j_web_url = ''u3'', j_status = ''success'', j_name = ''build'', j_stage = ''s1''\<rparr>]"

definition demo_report :: "int \<Rightarrow> test_report_json" where
  "demo_report pid =
     (if pid = 42 then
        \<lparr>total_count = 10, failed_count = 2, skipped_count = 1,
         test_suites =
           [\<lparr>ts_name = ''A B'',
             ts_test_cases =
               [\<lparr>tc_status = ''skipped'', tc_classname = ''C1'', tc_name = ''t1''\<rparr>,
                \<lparr>tc_status = ''success'', tc_classname = ''C2'', tc_name = ''t2''\<rparr>]\<rparr>]\<rparr>
      else if pid = 41 then
        \<lparr>total_count = 0, failed_count = 0, skipped_count = 0, test_suites = []\<rparr>
      else
        \<lparr>total_count = 8, failed_count = 1, skipped_count = 3, test_suites = []\<rparr>)"

definition demo_template :: "template_context \<Rightarrow> string + string" where
  "demo_template ctx = Inr (ctx_failed_job_percentage ctx @ '' '' @ ctx_pipeline_end_time ctx)"

definition demo_env :: "nat \<Rightarrow> pipeline_json list \<Rightarrow> env" where
  "demo_env code ps =
     \<lparr>pipelines_api = (\<lambda>n p. Inr \<lparr>status_code = code, json = Inr ps\<rparr>),
      jobs_api = (\<lambda>n p i. Inr \<lparr>status_code = code, json = Inr demo_jobs\<rparr>),
      test_report_api = (\<lambda>n p i. Inr \<lparr>status_code = code, json = Inr (demo_report i)\<rparr>),
      rnd = (\<lambda>n. n),
      get_template = Inr demo_template,
      writable = (\<lambda>f. True)\<rparr>"

definition one_pipeline :: "pipeline_json list" where
  "one_pipeline = [\<lparr>p_id = 42, p_updated_at = ''2024-01-02T03:04:05Z''\<rparr>]"

definition three_pipelines :: "pipeline_json list" where
  "three_pipelines =
     [\<lparr>p_id = 42, p_updated_at = ''2024-01-02T03:04:05Z''\<rparr>,
      \<lparr>p_id = 41, p_updated_at = ''2024-01-01T03:04:05Z''\<rparr>,
      \<lparr>p_id = 40, p_updated_at = ''2023-12-31T03:04:05Z''\<rparr>]"

text \<open>
  The jobs and the context of the concrete run, and a server whose test report for
  pipeline 41 has status 500.
\<close>

definition demo_all_jobs :: "Job list" where
  "demo_all_jobs =
     [\<lparr>job_run_url = ''u3'', job_run_status = ''success'', job_name = ''build'',
       job_stage = ''s1'', teams = ''DONKI, IDS''\<rparr>,
      \<lparr>job_run_url = ''u1'', job_run_status = ''failed'', job_name = ''test'',
       job_stage = ''s2'', teams = ''ECDC, SCIPP''\<rparr>,
      \<lparr>job_run_url = ''u2'', job_run_status = [], job_name = ''deploy'',
       job_stage = ''s3'', teams = ''SWAT, DST''\<rparr>]"

definition demo_context :: "int list \<Rightarrow> int list \<Rightarrow> int list \<Rightarrow> int list \<Rightarrow> template_context" where
  "demo_context ids totals failing skipped =
     \<lparr>ctx_gitlab_tests = demo_all_jobs,
      ctx_failed_tests = [demo_all_jobs ! 1],
      ctx_failed_job_percentage = ''20.00%'',
      ctx_pipeline_end_time = ''January 02, 2024 03:04 AM UTC'',
      ctx_teams = TEAMS,
      ctx_failing_test = failing,
      ctx_pipeline_run_ids = ids,
      ctx_skipped_tests = skipped,
      ctx_number_of_tests = totals,
      ctx_pipeline_id = 42,
      ctx_skipped_test_suites =
        [(''C1'', ''t1'',
          ''https://git.esss.dk/dmsc-nightly/dmsc-nightly/-/pipelines/42/test_report?job_name=A%20B'')]\<rparr>"

definition flaky_env :: env where
  "flaky_env =
     (demo_env 200 three_pipelines)
       \<lparr>test_report_api :=
          (\<lambda>n p i. Inr \<lparr>status_code = (if i = 41 then 500 else 200), json = Inr (demo_report i)\<rparr>)\<rparr>"

section \<open>Properties\<close>

subsection \<open>Exceptions, requests and the bucket loop\<close>

lemma io_bind_Inr:
  "io_bind m f w = (Inr y, w') \<longleftrightarrow> (\<exists>x w1. m w = (Inr x, w1) \<and> f x w1 = (Inr y, w'))"
  by (auto simp: io_bind_def split: prod.splits sum.splits)

lemma io_bind_Inl:
  "io_bind m f w = (Inl e, w') \<longleftrightarrow>
     m w = (Inl e, w') \<or> (\<exists>x w1. m w = (Inr x, w1) \<and> f x w1 = (Inl e, w'))"
  by (auto simp: io_bind_def split: prod.splits sum.splits)

lemma io_bind_step: "m w = (Inr x, w1) \<Longrightarrow> io_bind m f w = f x w1"
  by (simp add: io_bind_def)

lemma io_bind_fail: "m w = (Inl e, w1) \<Longrightarrow> io_bind m f w = (Inl e, w1)"
  by (simp add: io_bind_def)

lemma get_test_report_eq:
  "get_test_report env p i w =
     (response_result (test_report_api env (length (requests w)) p i),
      w\<lparr>requests := requests w @ [GetTestReport p i]\<rparr>)"
  by (simp add: get_test_report_def http_get_def raise_for_status_def io_bind_def io_external_def
      io_raise_def io_return_def response_result_def split: sum.splits)

lemma get_jobs_eq:
  "get_jobs env p i w =
     (response_result (jobs_api env (length (requests w)) p i),
      w\<lparr>requests := requests w @ [GetJobs p i]\<rparr>)"
  by (simp add: get_jobs_def http_get_def raise_for_status_def io_bind_def io_external_def
      io_raise_def io_return_def response_result_def split: sum.splits)

lemma get_pipelines_eq:
  "get_pipelines env p w =
     ((case response_result (pipelines_api env (length (requests w)) p) of
         Inl e \<Rightarrow> Inl e
       | Inr [] \<Rightarrow> Inl IndexError
       | Inr (latest # rest) \<Rightarrow> Inr (latest, map p_id (take 50 (latest # rest)))),
      w\<lparr>requests := requests w @ [GetPipelines p]\<rparr>)"
  by (simp add: get_pipelines_def http_get_def raise_for_status_def io_bind_def io_external_def
      io_raise_def io_return_def io_lift_def response_result_def Let_def split: sum.splits list.splits)

lemma random_choices_TEAMS:
  "random_choices env TEAMS 2 w =
     (Inr [TEAMS ! (rnd env (draws w) mod length TEAMS),
           TEAMS ! (rnd env (Suc (draws w)) mod length TEAMS)],
      w\<lparr>draws := draws w + 2\<rparr>)"
  by (simp add: numeral_2_eq_2 random_choice_def io_bind_def io_return_def TEAMS_def)

lemma bucket_jobs_eq:
  "bucket_jobs env jobs (s, f, o') w =
     (Inr (s @ filter (\<lambda>b. job_run_status b = ''success'') (job_objs env (draws w) jobs),
           f @ filter (\<lambda>b. job_run_status b = ''failed'') (job_objs env (draws w) jobs),
           o' @ map (\<lambda>b. b\<lparr>job_run_status := []\<rparr>)
                 (filter (\<lambda>b. job_run_status b \<noteq> ''success'' \<and> job_run_status b \<noteq> ''failed'')
                    (job_objs env (draws w) jobs))),
      w\<lparr>draws := draws w + 2 * length jobs\<rparr>)"
proof (induction jobs arbitrary: s f o' w)
  case Nil
  then show ?case by (simp add: io_return_def)
next
  case (Cons job jobs)
  show ?case
    by (simp add: io_bind_step [OF random_choices_TEAMS] Cons.IH team_label_def Let_def)
qed

subsection \<open>Jobs are bucketed by status\<close>

lemma job_objs_length: "length (job_objs env d jobs) = length jobs"
  by (induction jobs arbitrary: d) auto

lemma job_objs_of_job:
  "job \<in> set jobs \<Longrightarrow>
     \<exists>b\<in>set (job_objs env d jobs). job_run_url b = j_web_url job \<and>
        job_run_status b = j_status job \<and> job_name b = j_name job \<and> job_stage b = j_stage job"
  by (induction jobs arbitrary: d) auto

lemma three_way_length:
  "length (filter P xs) + length (filter Q xs) + length (filter (\<lambda>x. \<not> P x \<and> \<not> Q x) xs) = length xs"
  if "\<And>x. P x \<Longrightarrow> \<not> Q x"
  using that by (induction xs) auto

text \<open>
  Claim C2. The bucket loop never raises. Every job is put in one bucket: a job whose
  status is exactly \<open>success\<close> in the success bucket and one whose status is exactly
  \<open>failed\<close> in the failed bucket, both with the status kept, and a job of any other
  status in the other bucket with its run status set to the empty string.
\<close>

theorem jobs_bucketed_by_status:
  "\<exists>success failed others w'.
     bucket_jobs env jobs ([], [], []) w = (Inr (success, failed, others), w') \<and>
     length success + length failed + length others = length jobs \<and>
     (\<forall>b\<in>set success. job_run_status b = ''success'') \<and>
     (\<forall>b\<in>set failed. job_run_status b = ''failed'') \<and>
     (\<forall>b\<in>set others. job_run_status b = []) \<and>
     (\<forall>job\<in>set jobs.
        (j_status job = ''success'' \<longrightarrow>
           (\<exists>b\<in>set success. job_run_url b = j_web_url job \<and> job_run_status b = j_status job \<and>
              job_name b = j_name job \<and> job_stage b = j_stage job)) \<and>
        (j_status job = ''failed'' \<longrightarrow>
           (\<exists>b\<in>set failed. job_run_url b = j_web_url job \<and> job_run_status b = j_status job \<and>
              job_name b = j_name job \<and> job_stage b = j_stage job)) \<and>
        (j_status job \<noteq> ''success'' \<and> j_status job \<noteq> ''failed'' \<longrightarrow>
           (\<exists>b\<in>set others. job_run_url b = j_web_url job \<and> job_run_status b = [] \<and>
              job_name b = j_name job \<and> job_stage b = j_stage job)))"
proof -
  define objs where "objs = job_objs env (draws w) jobs"
  define success where "success = filter (\<lambda>b. job_run_status b = ''success'') objs"
  define failed where "failed = filter (\<lambda>b. job_run_status b = ''failed'') objs"
  define others where
    "others = map (\<lambda>b. b\<lparr>job_run_status := []\<rparr>)
       (filter (\<lambda>b. job_run_status b \<noteq> ''success'' \<and> job_run_status b \<noteq> ''failed'') objs)"
  have run: "bucket_jobs env jobs ([], [], []) w =
      (Inr (success, failed, others), w\<lparr>draws := draws w + 2 * length jobs\<rparr>)"
    by (simp add: bucket_jobs_eq success_def failed_def others_def objs_def)
  have len: "length success + length failed + length others = length jobs"
    using three_way_length [of "\<lambda>b. job_run_status b = ''success''"
        "\<lambda>b. job_run_status b = ''failed''" objs]
    by (simp add: success_def failed_def others_def objs_def job_objs_length)
  have s: "\<forall>b\<in>set success. job_run_status b = ''success''"
    by (simp add: success_def)
  have f: "\<forall>b\<in>set failed. job_run_status b = ''failed''"
    by (simp add: failed_def)
  have o: "\<forall>b\<in>set others. job_run_status b = []"
    by (auto simp: others_def)
  have placed: "\<forall>job\<in>set jobs.
        (j_status job = ''success'' \<longrightarrow>
           (\<exists>b\<in>set success. job_run_url b = j_web_url job \<and> job_run_status b = j_status job \<and>
              job_name b = j_name job \<and> job_stage b = j_stage job)) \<and>
        (j_status job = ''failed'' \<longrightarrow>
           (\<exists>b\<in>set failed. job_run_url b = j_web_url job \<and> job_run_status b = j_status job \<and>
              job_name b = j_name job \<and> job_stage b = j_stage job)) \<and>
        (j_status job \<noteq> ''success'' \<and> j_status job \<noteq> ''failed'' \<longrightarrow>
           (\<exists>b\<in>set others. job_run_url b = j_web_url job \<and> job_run_status b = [] \<and>
              job_name b = j_name job \<and> job_stage b = j_stage job))"
  proof
    fix job assume "job \<in> set jobs"
    then obtain b where b: "b \<in> set objs" "job_run_url b = j_web_url job"
      "job_run_status b = j_status job" "job_name b = j_name job" "job_stage b = j_stage job"
      using job_objs_of_job [of job jobs env "draws w"] by (auto simp: objs_def)
    show "(j_status job = ''success'' \<longrightarrow>
           (\<exists>b\<in>set success. job_run_url b = j_web_url job \<and> job_run_status b = j_status job \<and>
              job_name b = j_name job \<and> job_stage b = j_stage job)) \<and>
        (j_status job = ''failed'' \<longrightarrow>
           (\<exists>b\<in>set failed. job_run_url b = j_web_url job \<and> job_run_status b = j_status job \<and>
              job_name b = j_name job \<and> job_stage b = j_stage job)) \<and>
        (j_status job \<noteq> ''success'' \<and> j_status job \<noteq> ''failed'' \<longrightarrow>
           (\<exists>b\<in>set others. job_run_url b = j_web_url job \<and> job_run_status b = [] \<and>
              job_name b = j_name job \<and> job_stage b = j_stage job))"
    proof (intro conjI impI)
      assume "j_status job = ''success''"
      with b show "\<exists>b\<in>set success. job_run_url b = j_web_url job \<and>
          job_run_status b = j_status job \<and> job_name b = j_name job \<and> job_stage b = j_stage job"
        by (intro bexI [of _ b]) (auto simp: success_def)
    next
      assume "j_status job = ''failed''"
      with b show "\<exists>b\<in>set failed. job_run_url b = j_web_url job \<and>
          job_run_status b = j_status job \<and> job_name b = j_name job \<and> job_stage b = j_stage job"
        by (intro bexI [of _ b]) (auto simp: failed_def)
    next
      assume "j_status job \<noteq> ''success'' \<and> j_status job \<noteq> ''failed''"
      with b show "\<exists>b\<in>set others. job_run_url b = j_web_url job \<and>
          job_run_status b = [] \<and> job_name b = j_name job \<and> job_stage b = j_stage job"
        by (intro bexI [of _ "b\<lparr>job_run_status := []\<rparr>"]) (auto simp: others_def)
    qed
  qed
  from run len s f o placed show ?thesis by blast
qed

lemma demo_buckets:
  "bucket_jobs (demo_env 200 one_pipeline) demo_jobs ([], [], []) world0 =
     (Inr ([\<lparr>job_run_url = ''u3'', job_run_status = ''success'', job_name = ''build'',
             job_stage = ''s1'', teams = ''DONKI, IDS''\<rparr>],
           [\<lparr>job_run_url = ''u1'', job_run_status = ''failed'', job_name = ''test'',
             job_stage = ''s2'', teams = ''ECDC, SCIPP''\<rparr>],
           [\<lparr>job_run_url = ''u2'', job_run_status = [], job_name = ''deploy'',
             job_stage = ''s3'', teams = ''SWAT, DST''\<rparr>]),
      world0\<lparr>draws := 6\<rparr>)"
  by (subst bucket_jobs_eq) (simp add: demo_jobs_def world0_def team_label_def demo_env_def TEAMS_def)

theorem jobs_bucketed_by_status_witness:
  "\<exists>success failed others.
     fst (bucket_jobs (demo_env 200 one_pipeline) demo_jobs ([], [], []) world0) =
       Inr (success, failed, others) \<and>
     map job_name success = [''build''] \<and> map job_run_status success = [''success''] \<and>
     map job_name failed = [''test''] \<and> map job_run_status failed = [''failed''] \<and>
     map job_name others = [''deploy''] \<and> map job_run_status others = [[]] \<and>
     length success + length failed + length others = length demo_jobs"
proof -
  obtain success failed others w' where
    run: "bucket_jobs (demo_env 200 one_pipeline) demo_jobs ([], [], []) world0 =
      (Inr (success, failed, others), w')" and
    len: "length success + length failed + length others = length demo_jobs"
    using jobs_bucketed_by_status [of "demo_env 200 one_pipeline" demo_jobs world0] by blast
  from run have "fst (bucket_jobs (demo_env 200 one_pipeline) demo_jobs ([], [], []) world0) =
      Inr (success, failed, others)"
    by simp
  moreover from run have "map job_name success = [''build'']"
    "map job_run_status success = [''success'']" "map job_name failed = [''test'']"
    "map job_run_status failed = [''failed'']" "map job_name others = [''deploy'']"
    "map job_run_status others = [[]]"
    unfolding demo_buckets by auto
  ultimately show ?thesis using len
    by (intro exI [of _ success] exI [of _ failed] exI [of _ others] conjI)
qed

subsection \<open>The history loop\<close>

lemma build_run_chart_Inr:
  "build_run_chart env pids acc w = (Inr chart, w') \<Longrightarrow>
     w' = w\<lparr>requests := requests w @ map (GetTestReport DMSC_NIGHTLY_PROJECT_ID) pids\<rparr> \<and>
     (\<exists>tuples. chart = acc @ tuples \<and> length tuples = length pids \<and>
        (\<forall>i<length pids. run_entry env (length (requests w) + i) (pids ! i) = Inr (tuples ! i)))"
proof (induction pids arbitrary: acc w)
  case Nil
  then show ?case by (simp add: io_return_def)
next
  case (Cons pid pids)
  let ?w1 = "w\<lparr>requests := requests w @ [GetTestReport DMSC_NIGHTLY_PROJECT_ID pid]\<rparr>"
  from Cons.prems obtain r p where
    r: "response_result (test_report_api env (length (requests w)) DMSC_NIGHTLY_PROJECT_ID pid) = Inr r"
    and p: "failed_job_percentage (failed_count r) (total_count r) = Inr p"
    and rest: "build_run_chart env pids
       (acc @ [(pid, total_count r, p, failed_count r, skipped_count r)]) ?w1 = (Inr chart, w')"
    by (auto simp: io_bind_Inr get_test_report_eq io_lift_def Let_def)
  from Cons.IH [OF rest] obtain tuples where
    w': "w' = ?w1\<lparr>requests := requests ?w1 @ map (GetTestReport DMSC_NIGHTLY_PROJECT_ID) pids\<rparr>"
    and chart: "chart = (acc @ [(pid, total_count r, p, failed_count r, skipped_count r)]) @ tuples"
    and len: "length tuples = length pids"
    and each: "\<forall>i<length pids. run_entry env (length (requests ?w1) + i) (pids ! i) = Inr (tuples ! i)"
    by blast
  let ?t = "(pid, total_count r, p, failed_count r, skipped_count r)"
  have first: "run_entry env (length (requests w)) pid = Inr ?t"
    by (simp add: run_entry_def r p)
  have "\<forall>i<length (pid # pids).
      run_entry env (length (requests w) + i) ((pid # pids) ! i) = Inr ((?t # tuples) ! i)"
  proof (intro allI impI)
    fix i assume "i < length (pid # pids)"
    then show "run_entry env (length (requests w) + i) ((pid # pids) ! i) = Inr ((?t # tuples) ! i)"
      using first each by (cases i) auto
  qed
  moreover have "chart = acc @ (?t # tuples)" using chart by simp
  moreover have "length (?t # tuples) = length (pid # pids)" using len by simp
  moreover have "w' = w\<lparr>requests := requests w @
      map (GetTestReport DMSC_NIGHTLY_PROJECT_ID) (pid # pids)\<rparr>"
    using w' by simp
  ultimately show ?case by blast
qed

lemma run_entry_pid: "run_entry env n pid = Inr t \<Longrightarrow> fst t = pid"
  by (auto simp: run_entry_def split: sum.splits)

lemma run_chart_series_Inr:
  assumes "run_chart_series env last_50 w = (Inr run_chart, w')"
  shows "w' = w\<lparr>requests := requests w @ map (GetTestReport DMSC_NIGHTLY_PROJECT_ID) last_50\<rparr>"
    and "\<exists>tuples. run_chart = rev tuples \<and> length tuples = length last_50 \<and>
        (\<forall>i<length last_50.
           run_entry env (length (requests w) + i) (last_50 ! i) = Inr (tuples ! i))"
proof -
  from assms obtain chart where
    "build_run_chart env last_50 [] w = (Inr chart, w')" and "run_chart = rev chart"
    by (auto simp: run_chart_series_def io_bind_Inr io_return_def)
  with build_run_chart_Inr [of env last_50 "[]" w chart w']
  show "w' = w\<lparr>requests := requests w @ map (GetTestReport DMSC_NIGHTLY_PROJECT_ID) last_50\<rparr>"
    and "\<exists>tuples. run_chart = rev tuples \<and> length tuples = length last_50 \<and>
        (\<forall>i<length last_50.
           run_entry env (length (requests w) + i) (last_50 ! i) = Inr (tuples ! i))"
    by auto
qed

text \<open>
  Claim C4. When the history loop and the reversal succeed, the run chart is the reverse
  of the list of tuples built in fetch order, one for the answer to each test-report
  request; its pipeline ids are the fetched ids reversed, so ids fetched in descending
  order (newest first) give a chart in ascending order (oldest first).
\<close>

theorem run_chart_is_reversed_fetch_order:
  assumes "run_chart_series env last_50 w = (Inr run_chart, w')"
  shows "\<exists>tuples. length tuples = length last_50 \<and>
           (\<forall>i<length last_50.
              run_entry env (length (requests w) + i) (last_50 ! i) = Inr (tuples ! i)) \<and>
           run_chart = rev tuples \<and>
           map fst run_chart = rev last_50 \<and>
           (sorted_wrt (>) last_50 \<longrightarrow> sorted_wrt (<) (map fst run_chart))"
proof -
  from run_chart_series_Inr(2) [OF assms] obtain tuples where
    rc: "run_chart = rev tuples" and len: "length tuples = length last_50" and
    each: "\<forall>i<length last_50.
       run_entry env (length (requests w) + i) (last_50 ! i) = Inr (tuples ! i)"
    by blast
  have "map fst tuples = last_50"
  proof (rule nth_equalityI)
    show "length (map fst tuples) = length last_50" using len by simp
  next
    fix i assume "i < length (map fst tuples)"
    then have i: "i < length last_50" using len by simp
    with each have "run_entry env (length (requests w) + i) (last_50 ! i) = Inr (tuples ! i)"
      by blast
    from run_entry_pid [OF this] show "map fst tuples ! i = last_50 ! i"
      using i len by simp
  qed
  then have ids: "map fst run_chart = rev last_50"
    by (simp add: rc rev_map [symmetric])
  have "sorted_wrt (>) last_50 \<longrightarrow> sorted_wrt (<) (map fst run_chart)"
    by (simp add: ids sorted_wrt_rev)
  with rc len each ids show ?thesis by blast
qed

subsection \<open>Which errors the run can raise\<close>

lemma response_result_Inl: "response_result r = Inl e \<Longrightarrow> fetch_error e"
  by (auto simp: response_result_def split: sum.splits if_splits)

lemma get_jobs_Inl: "get_jobs env p i w = (Inl e, w') \<Longrightarrow> fetch_error e"
  by (auto simp: get_jobs_eq dest: response_result_Inl)

lemma get_test_report_Inl: "get_test_report env p i w = (Inl e, w') \<Longrightarrow> fetch_error e"
  by (auto simp: get_test_report_eq dest: response_result_Inl)

lemma get_pipelines_Inl:
  "get_pipelines env p w = (Inl e, w') \<Longrightarrow>
     fetch_error e \<or>
     (e = IndexError \<and> response_result (pipelines_api env (length (requests w)) p) = Inr [])"
  by (auto simp: get_pipelines_eq dest: response_result_Inl split: sum.splits list.splits)

lemma get_pipelines_Inr:
  "get_pipelines env p w = (Inr (latest, ids), w') \<Longrightarrow>
     (\<exists>rest. response_result (pipelines_api env (length (requests w)) p) = Inr (latest # rest) \<and>
        ids = map p_id (take 50 (latest # rest))) \<and>
     w' = w\<lparr>requests := requests w @ [GetPipelines p]\<rparr>"
  by (auto simp: get_pipelines_eq split: sum.splits list.splits)

lemma failed_job_percentage_Inl:
  "failed_job_percentage f t = Inl e \<Longrightarrow> e = OverflowError"
  by (auto simp: failed_job_percentage_def py_truediv_def split: if_splits sum.splits option.splits)

lemma build_run_chart_Inl:
  "build_run_chart env pids acc w = (Inl e, w') \<Longrightarrow> fetch_error e \<or> e = OverflowError"
proof (induction pids arbitrary: acc w)
  case Nil
  then show ?case by (simp add: io_return_def)
next
  case (Cons pid pids)
  from Cons.prems show ?case
    by (auto simp: io_bind_Inl io_lift_def Let_def
        dest: get_test_report_Inl failed_job_percentage_Inl Cons.IH)
qed

lemma run_chart_series_Inl:
  "run_chart_series env pids w = (Inl e, w') \<Longrightarrow> fetch_error e \<or> e = OverflowError"
  by (auto simp: run_chart_series_def io_bind_Inl io_return_def dest: build_run_chart_Inl)

lemma io_external_Inl: "io_external r w = (Inl e, w') \<Longrightarrow> fetch_error e"
  by (auto simp: io_external_def split: sum.splits)

lemma fromisoformat_Inl: "fromisoformat s = Inl e \<Longrightarrow> e = ValueError"
  by (auto simp: fromisoformat_def split: if_splits option.splits prod.splits)

lemma py_last_Inl: "py_last xs = Inl e \<Longrightarrow> e = IndexError \<and> xs = []"
  by (auto simp: py_last_def split: if_splits)

lemma prepare_Inl:
  assumes "prepare env w = (Inl e, w')"
  shows "fetch_error e \<or> e = OverflowError \<or> e = ValueError \<or>
     (e = IndexError \<and>
      response_result (pipelines_api env (length (requests w)) DMSC_NIGHTLY_PROJECT_ID) = Inr [])"
  using assms
  apply (simp add: prepare_def io_bind_Inl Let_def split_paired_Ex)
  apply (elim disjE exE conjE)
         apply (auto dest: get_pipelines_Inl)[1]
        apply (auto dest: get_jobs_Inl)[1]
       apply (simp add: bucket_jobs_eq)
      apply (auto dest: run_chart_series_Inl)[1]
     apply (auto dest: get_test_report_Inl)[1]
    apply (auto dest: io_external_Inl)[1]
   apply (auto simp: io_lift_def dest: fromisoformat_Inl)[1]
  apply (auto simp: io_lift_def io_return_def dest!: py_last_Inl run_chart_series_Inr(2) get_pipelines_Inr)
  done

subsection \<open>What a successful run computed\<close>

lemma io_external_Inr: "io_external r w = (Inr x, w') \<longleftrightarrow> r = Inr x \<and> w' = w"
  by (auto simp: io_external_def split: sum.splits)

lemma io_lift_Inr: "io_lift r w = (Inr x, w') \<longleftrightarrow> r = Inr x \<and> w' = w"
  by (auto simp: io_lift_def)

lemma prepare_Inr:
  assumes "prepare env w = (Inr (template, ctx), w')"
  shows "\<exists>pipeline last_50 w1 jobs w2 success failed others w3 run_chart w4 report date
            last_percentage.
     get_pipelines env DMSC_NIGHTLY_PROJECT_ID w = (Inr (pipeline, last_50), w1) \<and>
     get_jobs env DMSC_NIGHTLY_PROJECT_ID (p_id pipeline) w1 = (Inr jobs, w2) \<and>
     bucket_jobs env jobs ([], [], []) w2 = (Inr (success, failed, others), w3) \<and>
     run_chart_series env last_50 w3 = (Inr run_chart, w4) \<and>
     get_test_report env DMSC_NIGHTLY_PROJECT_ID (p_id pipeline) w4 = (Inr report, w') \<and>
     get_template env = Inr template \<and>
     fromisoformat (replace_Z (p_updated_at pipeline)) = Inr date \<and>
     py_last (map (\<lambda>(i0, i1, i2, i3, i4). i2) run_chart) = Inr last_percentage \<and>
     ctx =
       \<lparr>ctx_gitlab_tests = success @ failed @ others,
        ctx_failed_tests = failed,
        ctx_failed_job_percentage = format_2f last_percentage @ ''%'',
        ctx_pipeline_end_time = strftime date @ '' UTC'',
        ctx_teams = TEAMS,
        ctx_failing_test = map (\<lambda>(i0, i1, i2, i3, i4). i3) run_chart,
        ctx_pipeline_run_ids = map (\<lambda>(i0, i1, i2, i3, i4). i0) run_chart,
        ctx_skipped_tests = map (\<lambda>(i0, i1, i2, i3, i4). i4) run_chart,
        ctx_number_of_tests = map (\<lambda>(i0, i1, i2, i3, i4). i1) run_chart,
        ctx_pipeline_id = p_id pipeline,
        ctx_skipped_test_suites = collect_skipped (p_id pipeline) (test_suites report) []\<rparr>"
  using assms
  by (simp add: prepare_def io_bind_Inr Let_def split_paired_Ex io_external_Inr io_lift_Inr
      io_return_def) blast

lemma prepare_InrE [consumes 1, case_names ok]:
  assumes "prepare env w = (Inr (template, ctx), w')"
  obtains pipeline last_50 w1 jobs w2 success failed others w3 run_chart w4 report date
    last_percentage
  where "get_pipelines env DMSC_NIGHTLY_PROJECT_ID w = (Inr (pipeline, last_50), w1)"
    and "get_jobs env DMSC_NIGHTLY_PROJECT_ID (p_id pipeline) w1 = (Inr jobs, w2)"
    and "bucket_jobs env jobs ([], [], []) w2 = (Inr (success, failed, others), w3)"
    and "run_chart_series env last_50 w3 = (Inr run_chart, w4)"
    and "get_test_report env DMSC_NIGHTLY_PROJECT_ID (p_id pipeline) w4 = (Inr report, w')"
    and "get_template env = Inr template"
    and "fromisoformat (replace_Z (p_updated_at pipeline)) = Inr date"
    and "py_last (map (\<lambda>(i0, i1, i2, i3, i4). i2) run_chart) = Inr last_percentage"
    and "ctx_gitlab_tests ctx = success @ failed @ others"
    and "ctx_failed_tests ctx = failed"
    and "ctx_failed_job_percentage ctx = format_2f last_percentage @ ''%''"
    and "ctx_pipeline_end_time ctx = strftime date @ '' UTC''"
    and "ctx_failing_test ctx = map (\<lambda>(i0, i1, i2, i3, i4). i3) run_chart"
    and "ctx_pipeline_run_ids ctx = map (\<lambda>(i0, i1, i2, i3, i4). i0) run_chart"
    and "ctx_skipped_tests ctx = map (\<lambda>(i0, i1, i2, i3, i4). i4) run_chart"
    and "ctx_number_of_tests ctx = map (\<lambda>(i0, i1, i2, i3, i4). i1) run_chart"
    and "ctx_pipeline_id ctx = p_id pipeline"
    and "ctx_skipped_test_suites ctx = collect_skipped (p_id pipeline) (test_suites report) []"
proof -
  from prepare_Inr [OF assms] show thesis
    by (elim exE conjE) (rule that, simp_all)
qed

subsection \<open>The failed percentage\<close>

lemma run_entry_Inr:
  "run_entry env n pid = Inr t \<Longrightarrow>
     \<exists>r pct. response_result (test_report_api env n DMSC_NIGHTLY_PROJECT_ID pid) = Inr r \<and>
       t = (pid, total_count r, pct, failed_count r, skipped_count r) \<and>
       failed_job_percentage (failed_count r) (total_count r) = Inr pct"
  by (auto simp: run_entry_def split: sum.splits)

lemma failed_job_percentage_Inr:
  "failed_job_percentage f t = Inr pct \<Longrightarrow>
     (t = 0 \<longrightarrow> pct = float_zero) \<and>
     (t \<noteq> 0 \<longrightarrow> (\<exists>q. py_truediv f t = Inr q \<and> pct = py_float_mul q float_100))"
  by (auto simp: failed_job_percentage_def split: if_splits sum.splits)

lemma main_Inl:
  assumes "main env w = (Inl e, w')"
  shows "fetch_error e \<or> e = OverflowError \<or> e = ValueError \<or> e = IndexError"
  using assms
  by (auto simp: main_def io_bind_Inl write_file_def
      dest: prepare_Inl io_external_Inl split: if_splits)

text \<open>
  Claim C1. Neither the history loop nor the whole run ever raises ZeroDivisionError: the
  division is not evaluated on a zero total. When the loop succeeds, the tuple of every
  fetched test report holds its counts, and its percentage is \<open>0.0\<close> when the total is 0
  and the float \<open>failed / total * 100\<close> otherwise.
\<close>

theorem failed_percentage_guarded:
  "fst (run_chart_series env last_50 w) \<noteq> Inl ZeroDivisionError \<and>
   fst (main env w) \<noteq> Inl ZeroDivisionError \<and>
   (run_chart_series env last_50 w = (Inr run_chart, w') \<longrightarrow>
      (\<forall>i<length last_50. \<exists>r pct.
         response_result
           (test_report_api env (length (requests w) + i) DMSC_NIGHTLY_PROJECT_ID (last_50 ! i)) =
           Inr r \<and>
         rev run_chart ! i = (last_50 ! i, total_count r, pct, failed_count r, skipped_count r) \<and>
         (total_count r = 0 \<longrightarrow> pct = float_zero) \<and>
         (total_count r \<noteq> 0 \<longrightarrow>
            (\<exists>q. py_truediv (failed_count r) (total_count r) = Inr q \<and>
                 pct = py_float_mul q float_100))))"
proof (intro conjI impI allI)
  show "fst (run_chart_series env last_50 w) \<noteq> Inl ZeroDivisionError"
  proof
    assume "fst (run_chart_series env last_50 w) = Inl ZeroDivisionError"
    then obtain w1 where "run_chart_series env last_50 w = (Inl ZeroDivisionError, w1)"
      by (cases "run_chart_series env last_50 w") auto
    from run_chart_series_Inl [OF this] show False by simp
  qed
next
  show "fst (main env w) \<noteq> Inl ZeroDivisionError"
  proof
    assume "fst (main env w) = Inl ZeroDivisionError"
    then obtain w1 where "main env w = (Inl ZeroDivisionError, w1)"
      by (cases "main env w") auto
    from main_Inl [OF this] show False by simp
  qed
next
  fix i
  assume run: "run_chart_series env last_50 w = (Inr run_chart, w')" and i: "i < length last_50"
  from run_chart_series_Inr(2) [OF run] obtain tuples where
    rc: "run_chart = rev tuples" and
    each: "\<forall>i<length last_50.
       run_entry env (length (requests w) + i) (last_50 ! i) = Inr (tuples ! i)"
    by blast
  from each i have "run_entry env (length (requests w) + i) (last_50 ! i) = Inr (tuples ! i)"
    by blast
  from run_entry_Inr [OF this] obtain r pct where
    r: "response_result
          (test_report_api env (length (requests w) + i) DMSC_NIGHTLY_PROJECT_ID (last_50 ! i)) =
        Inr r" and
    t: "tuples ! i = (last_50 ! i, total_count r, pct, failed_count r, skipped_count r)" and
    p: "failed_job_percentage (failed_count r) (total_count r) = Inr pct"
    by blast
  from failed_job_percentage_Inr [OF p] r t rc
  show "\<exists>r pct.
         response_result
           (test_report_api env (length (requests w) + i) DMSC_NIGHTLY_PROJECT_ID (last_50 ! i)) =
           Inr r \<and>
         rev run_chart ! i = (last_50 ! i, total_count r, pct, failed_count r, skipped_count r) \<and>
         (total_count r = 0 \<longrightarrow> pct = float_zero) \<and>
         (total_count r \<noteq> 0 \<longrightarrow>
            (\<exists>q. py_truediv (failed_count r) (total_count r) = Inr q \<and>
                 pct = py_float_mul q float_100))"
    by auto
qed

subsection \<open>The combined job list\<close>

lemma job_objs_nth:
  "i < length jobs \<Longrightarrow>
     job_objs env d jobs ! i =
       \<lparr>job_run_url = j_web_url (jobs ! i), job_run_status = j_status (jobs ! i),
        job_name = j_name (jobs ! i), job_stage = j_stage (jobs ! i),
        teams = team_label env (d + 2 * i)\<rparr>"
proof (induction jobs arbitrary: d i)
  case Nil
  then show ?case by simp
next
  case (Cons job jobs)
  then show ?case by (cases i) auto
qed

text \<open>
  Claim C3. The job list passed to the template is the success bucket, then the failed
  bucket, then the other bucket; each bucket is a filter of the \<open>Job\<close> objects built in
  the order of the fetched jobs, so it keeps their relative order. The failed list passed
  to the template is the failed bucket.
\<close>

theorem combined_job_list_order:
  assumes "prepare env w = (Inr (template, ctx), w')"
  shows "\<exists>jobs objs.
     response_result
       (jobs_api env (Suc (length (requests w))) DMSC_NIGHTLY_PROJECT_ID (ctx_pipeline_id ctx)) =
       Inr jobs \<and>
     length objs = length jobs \<and>
     (\<forall>i<length jobs.
        job_run_url (objs ! i) = j_web_url (jobs ! i) \<and>
        job_run_status (objs ! i) = j_status (jobs ! i) \<and>
        job_name (objs ! i) = j_name (jobs ! i) \<and>
        job_stage (objs ! i) = j_stage (jobs ! i)) \<and>
     ctx_gitlab_tests ctx =
       filter (\<lambda>b. job_run_status b = ''success'') objs @
       filter (\<lambda>b. job_run_status b = ''failed'') objs @
       map (\<lambda>b. b\<lparr>job_run_status := []\<rparr>)
         (filter (\<lambda>b. job_run_status b \<noteq> ''success'' \<and> job_run_status b \<noteq> ''failed'') objs) \<and>
     ctx_failed_tests ctx = filter (\<lambda>b. job_run_status b = ''failed'') objs"
proof -
  from assms obtain pipeline last_50 w1 jobs w2 success failed others w3 where
    gp: "get_pipelines env DMSC_NIGHTLY_PROJECT_ID w = (Inr (pipeline, last_50), w1)" and
    gj: "get_jobs env DMSC_NIGHTLY_PROJECT_ID (p_id pipeline) w1 = (Inr jobs, w2)" and
    bj: "bucket_jobs env jobs ([], [], []) w2 = (Inr (success, failed, others), w3)" and
    all: "ctx_gitlab_tests ctx = success @ failed @ others" and
    fl: "ctx_failed_tests ctx = failed" and
    pid: "ctx_pipeline_id ctx = p_id pipeline"
    by (cases rule: prepare_InrE)
  define objs where "objs = job_objs env (draws w2) jobs"
  from get_pipelines_Inr [OF gp] have w1: "length (requests w1) = Suc (length (requests w))"
    by auto
  from gj have jobs: "response_result
       (jobs_api env (Suc (length (requests w))) DMSC_NIGHTLY_PROJECT_ID (ctx_pipeline_id ctx)) =
       Inr jobs"
    by (simp add: get_jobs_eq w1 pid)
  have len: "length objs = length jobs"
    by (simp add: objs_def job_objs_length)
  have nth: "\<forall>i<length jobs.
        job_run_url (objs ! i) = j_web_url (jobs ! i) \<and>
        job_run_status (objs ! i) = j_status (jobs ! i) \<and>
        job_name (objs ! i) = j_name (jobs ! i) \<and>
        job_stage (objs ! i) = j_stage (jobs ! i)"
    by (simp add: objs_def job_objs_nth)
  from bj have bs: "success = filter (\<lambda>b. job_run_status b = ''success'') objs"
    "failed = filter (\<lambda>b. job_run_status b = ''failed'') objs"
    "others = map (\<lambda>b. b\<lparr>job_run_status := []\<rparr>)
         (filter (\<lambda>b. job_run_status b \<noteq> ''success'' \<and> job_run_status b \<noteq> ''failed'') objs)"
    by (simp_all add: bucket_jobs_eq objs_def)
  show ?thesis
    by (intro exI [of _ jobs] exI [of _ objs] conjI) (simp_all add: jobs len nth all fl bs)
qed

subsection \<open>Evaluation on concrete inputs\<close>

lemmas float_eval = py_truediv_def round_binary64_def floor_log2_def bit_length.simps
  normalize_float.simps round_half_even_div_def Let_def float_100_def float_zero_def

lemma pct_2_10: "failed_job_percentage 2 10 = Inr (Num False 5 2)"
  by (simp add: failed_job_percentage_def float_eval)

lemma pct_1_8: "failed_job_percentage 1 8 = Inr (Num False 25 (- 1))"
  by (simp add: failed_job_percentage_def float_eval)

lemma pct_0_0: "failed_job_percentage 0 0 = Inr float_zero"
  by (simp add: failed_job_percentage_def)

lemma format_20: "format_2f (Num False 5 2) = ''20.00''"
  by code_simp

lemma scenario_date:
  "fromisoformat (replace_Z ''2024-01-02T03:04:05Z'') =
     Inr \<lparr>dt_year = 2024, dt_month = 1, dt_day = 2, dt_hour = 3, dt_minute = 4, dt_second = 5,
          dt_microsecond = 0, dt_utcoffset = Some 0\<rparr>"
  by code_simp

lemma scenario_strftime:
  "strftime \<lparr>dt_year = 2024, dt_month = Suc 0, dt_day = 2, dt_hour = 3, dt_minute = 4, dt_second = 5,
          dt_microsecond = 0, dt_utcoffset = Some 0\<rparr> = ''January 02, 2024 03:04 AM''"
  by code_simp

lemma quote_A_B: "quote ''A B'' = ''A%20B''"
  by code_simp

lemma url_42: "job_name_url 42 ''A B'' =
  ''https://git.esss.dk/dmsc-nightly/dmsc-nightly/-/pipelines/42/test_report?job_name=A%20B''"
  by code_simp

lemma demo_series:
  "run_chart_series (demo_env 200 three_pipelines) [42, 41, 40] w =
     (Inr [(40, 8, Num False 25 (- 1), 1, 3), (41, 0, float_zero, 0, 0), (42, 10, Num False 5 2, 2, 1)],
      w\<lparr>requests := requests w @
         [GetTestReport 301 42, GetTestReport 301 41, GetTestReport 301 40]\<rparr>)"
  by (simp add: run_chart_series_def io_bind_def get_test_report_eq response_result_def
      demo_env_def demo_report_def io_lift_def io_return_def pct_2_10 pct_1_8 pct_0_0
      DMSC_NIGHTLY_PROJECT_ID_def)

lemma demo_skipped:
  "collect_skipped 42 (test_suites (demo_report 42)) [] =
     [(''C1'', ''t1'',
       ''https://git.esss.dk/dmsc-nightly/dmsc-nightly/-/pipelines/42/test_report?job_name=A%20B'')]"
  by (simp add: demo_report_def url_42)

lemma demo_buckets_0:
  "draws w = 0 \<Longrightarrow>
   bucket_jobs (demo_env code ps) demo_jobs ([], [], []) w =
     (Inr ([demo_all_jobs ! 0], [demo_all_jobs ! 1], [demo_all_jobs ! 2]), w\<lparr>draws := 6\<rparr>)"
  by (subst bucket_jobs_eq)
    (simp add: demo_jobs_def demo_all_jobs_def team_label_def demo_env_def TEAMS_def)

lemma demo_get_pipelines:
  "code < 400 \<Longrightarrow>
   get_pipelines (demo_env code (p # ps)) DMSC_NIGHTLY_PROJECT_ID w =
     (Inr (p, map p_id (take 50 (p # ps))), w\<lparr>requests := requests w @ [GetPipelines 301]\<rparr>)"
  by (simp add: get_pipelines_eq response_result_def demo_env_def DMSC_NIGHTLY_PROJECT_ID_def)

lemma demo_get_jobs:
  "code < 400 \<Longrightarrow>
   get_jobs (demo_env code ps) DMSC_NIGHTLY_PROJECT_ID i w =
     (Inr demo_jobs, w\<lparr>requests := requests w @ [GetJobs 301 i]\<rparr>)"
  by (simp add: get_jobs_eq response_result_def demo_env_def DMSC_NIGHTLY_PROJECT_ID_def)

lemma demo_get_test_report:
  "code < 400 \<Longrightarrow>
   get_test_report (demo_env code ps) DMSC_NIGHTLY_PROJECT_ID i w =
     (Inr (demo_report i), w\<lparr>requests := requests w @ [GetTestReport 301 i]\<rparr>)"
  by (simp add: get_test_report_eq response_result_def demo_env_def DMSC_NIGHTLY_PROJECT_ID_def)

lemma demo_get_template: "get_template (demo_env code ps) = Inr demo_template"
  by (simp add: demo_env_def)

lemma demo_series_one:
  "code < 400 \<Longrightarrow>
   run_chart_series (demo_env code ps) [42] w =
     (Inr [(42, 10, Num False 5 2, 2, 1)], w\<lparr>requests := requests w @ [GetTestReport 301 42]\<rparr>)"
  by (simp add: run_chart_series_def io_bind_def demo_get_test_report demo_report_def io_lift_def
      io_return_def pct_2_10)

lemmas demo_run = prepare_def io_bind_def demo_get_pipelines demo_get_jobs demo_get_test_report
  demo_get_template demo_buckets_0 demo_skipped scenario_date scenario_strftime format_20
  py_last_def io_external_def io_lift_def io_return_def world0_def demo_context_def
  demo_all_jobs_def

lemma demo_prepare_three:
  "prepare (demo_env 200 three_pipelines) world0 =
     (Inr (demo_template, demo_context [40, 41, 42] [8, 0, 10] [1, 0, 2] [3, 0, 1]),
      \<lparr>requests = [GetPipelines 301, GetJobs 301 42, GetTestReport 301 42, GetTestReport 301 41,
                   GetTestReport 301 40, GetTestReport 301 42],
       draws = 6, files = Map.empty\<rparr>)"
  unfolding three_pipelines_def by (simp add: demo_run demo_series [unfolded three_pipelines_def])

lemma demo_prepare_one:
  "code < 400 \<Longrightarrow>
   prepare (demo_env code one_pipeline) world0 =
     (Inr (demo_template, demo_context [42] [10] [2] [1]),
      \<lparr>requests = [GetPipelines 301, GetJobs 301 42, GetTestReport 301 42, GetTestReport 301 42],
       draws = 6, files = Map.empty\<rparr>)"
  unfolding one_pipeline_def by (simp add: demo_run demo_series_one)

subsection \<open>The chart arrays\<close>

lemma py_last_Inr: "xs \<noteq> [] \<Longrightarrow> py_last xs = Inr (last xs)"
  by (simp add: py_last_def)

text \<open>
  Claim C10. When \<open>get_pipelines\<close> returns, the id list is not empty and starts with the
  latest pipeline's id; the run chart has one tuple per id, so the last element of the
  percentage series exists. The four arrays passed to the template have the length of the
  id list, which is positive, and the run raises IndexError only on an empty pipeline list.
\<close>

theorem chart_arrays_nonempty:
  "(get_pipelines env DMSC_NIGHTLY_PROJECT_ID w = (Inr (pipeline, last_50), w1) \<longrightarrow>
      last_50 \<noteq> [] \<and> p_id pipeline = hd last_50 \<and>
      (run_chart_series env last_50 w3 = (Inr run_chart, w4) \<longrightarrow>
         length run_chart = length last_50 \<and>
         (\<exists>p. py_last (map (\<lambda>(i0, i1, i2, i3, i4). i2) run_chart) = Inr p))) \<and>
   (prepare env w = (Inr (template, ctx), w') \<longrightarrow>
      (\<exists>pipeline last_50 w1.
         get_pipelines env DMSC_NIGHTLY_PROJECT_ID w = (Inr (pipeline, last_50), w1) \<and>
         ctx_pipeline_id ctx = hd last_50 \<and>
         0 < length last_50 \<and>
         length (ctx_pipeline_run_ids ctx) = length last_50 \<and>
         length (ctx_number_of_tests ctx) = length last_50 \<and>
         length (ctx_failing_test ctx) = length last_50 \<and>
         length (ctx_skipped_tests ctx) = length last_50)) \<and>
   (fst (prepare env w) = Inl IndexError \<longrightarrow>
      response_result (pipelines_api env (length (requests w)) DMSC_NIGHTLY_PROJECT_ID) = Inr [])"
proof (intro conjI impI)
  assume gp: "get_pipelines env DMSC_NIGHTLY_PROJECT_ID w = (Inr (pipeline, last_50), w1)"
  from get_pipelines_Inr [OF gp] show ne: "last_50 \<noteq> []" and "p_id pipeline = hd last_50"
    by auto
  assume rc: "run_chart_series env last_50 w3 = (Inr run_chart, w4)"
  from run_chart_series_Inr(2) [OF rc] show len: "length run_chart = length last_50"
    by auto
  with ne have "map (\<lambda>(i0, i1, i2, i3, i4). i2) run_chart \<noteq> []"
    by auto
  from py_last_Inr [OF this]
  show "\<exists>p. py_last (map (\<lambda>(i0, i1, i2, i3, i4). i2) run_chart) = Inr p"
    by blast
next
  assume "prepare env w = (Inr (template, ctx), w')"
  then show "\<exists>pipeline last_50 w1.
         get_pipelines env DMSC_NIGHTLY_PROJECT_ID w = (Inr (pipeline, last_50), w1) \<and>
         ctx_pipeline_id ctx = hd last_50 \<and>
         0 < length last_50 \<and>
         length (ctx_pipeline_run_ids ctx) = length last_50 \<and>
         length (ctx_number_of_tests ctx) = length last_50 \<and>
         length (ctx_failing_test ctx) = length last_50 \<and>
         length (ctx_skipped_tests ctx) = length last_50"
  proof (cases rule: prepare_InrE)
    case (ok pipeline last_50 w1 jobs w2 success failed others w3 run_chart w4 report date
        last_percentage)
    from get_pipelines_Inr [OF ok(1)] have "last_50 \<noteq> []" "p_id pipeline = hd last_50"
      by auto
    moreover from run_chart_series_Inr(2) [OF ok(4)] have "length run_chart = length last_50"
      by auto
    ultimately show ?thesis
      using ok by (intro exI [of _ pipeline] exI [of _ last_50] exI [of _ w1]) simp
  qed
next
  assume "fst (prepare env w) = Inl IndexError"
  then obtain w1 where "prepare env w = (Inl IndexError, w1)"
    by (cases "prepare env w") auto
  from prepare_Inl [OF this]
  show "response_result (pipelines_api env (length (requests w)) DMSC_NIGHTLY_PROJECT_ID) = Inr []"
    by simp
qed

subsection \<open>The skipped-test table\<close>

lemma collect_cases_eq:
  "collect_cases url cases acc =
     acc @ map (\<lambda>c. (tc_classname c, tc_name c, url)) (filter (\<lambda>c. tc_status c = ''skipped'') cases)"
  by (induction cases arbitrary: acc) auto

lemma collect_skipped_eq:
  "collect_skipped pipeline_id suites acc =
     acc @ concat (map (\<lambda>test.
        map (\<lambda>c. (tc_classname c, tc_name c, job_name_url pipeline_id (ts_name test)))
          (filter (\<lambda>c. tc_status c = ''skipped'') (ts_test_cases test))) suites)"
  by (induction suites arbitrary: acc) (auto simp: collect_cases_eq Let_def)

text \<open>
  Claim C5. The skipped-test table holds, suite by suite and case by case in order, one
  entry (class name, test name, link) for every test case whose status is exactly
  \<open>skipped\<close>, and nothing else; the table passed to the template is the one of the test
  report fetched last, which is the latest pipeline's.
\<close>

theorem skipped_table_complete:
  "collect_skipped pipeline_id suites [] =
     concat (map (\<lambda>test.
        map (\<lambda>c. (tc_classname c, tc_name c, job_name_url pipeline_id (ts_name test)))
          (filter (\<lambda>c. tc_status c = ''skipped'') (ts_test_cases test))) suites) \<and>
   (entry \<in> set (collect_skipped pipeline_id suites []) \<longleftrightarrow>
      (\<exists>test\<in>set suites. \<exists>c\<in>set (ts_test_cases test). tc_status c = ''skipped'' \<and>
         entry = (tc_classname c, tc_name c, job_name_url pipeline_id (ts_name test)))) \<and>
   (prepare env w = (Inr (template, ctx), w') \<longrightarrow>
      (\<exists>report.
         requests w' \<noteq> [] \<and>
         last (requests w') = GetTestReport DMSC_NIGHTLY_PROJECT_ID (ctx_pipeline_id ctx) \<and>
         response_result
           (test_report_api env (length (requests w') - 1) DMSC_NIGHTLY_PROJECT_ID
              (ctx_pipeline_id ctx)) = Inr report \<and>
         ctx_skipped_test_suites ctx =
           collect_skipped (ctx_pipeline_id ctx) (test_suites report) []))"
proof (intro conjI impI)
  show "collect_skipped pipeline_id suites [] =
     concat (map (\<lambda>test.
        map (\<lambda>c. (tc_classname c, tc_name c, job_name_url pipeline_id (ts_name test)))
          (filter (\<lambda>c. tc_status c = ''skipped'') (ts_test_cases test))) suites)"
    by (simp add: collect_skipped_eq)
next
  show "entry \<in> set (collect_skipped pipeline_id suites []) \<longleftrightarrow>
      (\<exists>test\<in>set suites. \<exists>c\<in>set (ts_test_cases test). tc_status c = ''skipped'' \<and>
         entry = (tc_classname c, tc_name c, job_name_url pipeline_id (ts_name test)))"
    by (auto simp: collect_skipped_eq)
next
  assume "prepare env w = (Inr (template, ctx), w')"
  then show "\<exists>report.
         requests w' \<noteq> [] \<and>
         last (requests w') = GetTestReport DMSC_NIGHTLY_PROJECT_ID (ctx_pipeline_id ctx) \<and>
         response_result
           (test_report_api env (length (requests w') - 1) DMSC_NIGHTLY_PROJECT_ID
              (ctx_pipeline_id ctx)) = Inr report \<and>
         ctx_skipped_test_suites ctx =
           collect_skipped (ctx_pipeline_id ctx) (test_suites report) []"
  proof (cases rule: prepare_InrE)
    case (ok pipeline last_50 w1 jobs w2 success failed others w3 run_chart w4 report date
        last_percentage)
    from ok(5) have "requests w' = requests w4 @ [GetTestReport DMSC_NIGHTLY_PROJECT_ID (p_id pipeline)]"
      and "response_result
        (test_report_api env (length (requests w4)) DMSC_NIGHTLY_PROJECT_ID (p_id pipeline)) =
        Inr report"
      by (auto simp: get_test_report_eq)
    then show ?thesis
      using ok by (intro exI [of _ report]) simp
  qed
qed

subsection \<open>Percent-encoding of the suite name\<close>

lemma of_char_less_256: "(of_char c :: nat) < 256"
proof -
  have "(of_char c :: nat) mod 256 < 256" by simp
  then show ?thesis by (simp only: of_char_mod_256)
qed

lemma hex_digit_all:
  "\<forall>n\<in>set [0..<16]. hex_val (hex_digit n) = Some n \<and> always_safe (hex_digit n)"
  by code_simp

lemma hex_val_hex_digit: "n < 16 \<Longrightarrow> hex_val (hex_digit n) = Some n"
  using hex_digit_all by simp

lemma always_safe_hex_digit: "n < 16 \<Longrightarrow> always_safe (hex_digit n)"
  using hex_digit_all by simp

lemma percent_not_safe: "\<not> always_safe CHR ''%''"
  by (simp add: always_safe_def)

lemma percent_decode_quote_byte:
  "percent_decode (quote_byte c @ rest) = map_option ((#) c) (percent_decode rest)"
proof (cases "always_safe c \<or> c = CHR ''/''")
  case True
  then have "c \<noteq> CHR ''%''" using percent_not_safe by auto
  with True show ?thesis by (simp add: quote_byte_def)
next
  case False
  have hi: "(of_char c :: nat) div 16 < 16"
    using of_char_less_256 [of c] by arith
  have lo: "(of_char c :: nat) mod 16 < 16" by simp
  have "char_of (16 * ((of_char c :: nat) div 16) + of_char c mod 16) = c"
    by simp
  with False show ?thesis
    by (simp add: quote_byte_def hex_val_hex_digit [OF hi] hex_val_hex_digit [OF lo]
        split: option.splits)
qed

lemma percent_decode_quote: "percent_decode (quote s) = Some s"
proof (induction s)
  case Nil
  then show ?case by (simp add: quote_def)
next
  case (Cons c s)
  have "quote (c # s) = quote_byte c @ quote s" by (simp add: quote_def)
  then show ?case using Cons by (simp add: percent_decode_quote_byte)
qed

lemma quote_alphabet:
  "c \<in> set (quote s) \<Longrightarrow> always_safe c \<or> c = CHR ''/'' \<or> c = CHR ''%''"
proof -
  assume "c \<in> set (quote s)"
  then obtain b where "b \<in> set s" and c: "c \<in> set (quote_byte b)"
    by (auto simp: quote_def)
  have "(of_char b :: nat) div 16 < 16" using of_char_less_256 [of b] by arith
  moreover have "(of_char b :: nat) mod 16 < 16" by simp
  ultimately show ?thesis
    using c by (auto simp: quote_byte_def always_safe_hex_digit split: if_splits)
qed

text \<open>
  Claim C6. The link of every entry is the fixed prefix, the pipeline id, and
  \<open>/test_report?job_name=\<close> followed by the quoted suite name. The quoted name consists of
  unreserved characters, \<open>/\<close> and \<open>%XX\<close> escapes only, and decodes to the name. The suite
  \<open>A B\<close> gives a link that ends in \<open>test_report?job_name=A%20B\<close>.
\<close>

theorem suite_name_percent_encoded:
  "(\<forall>entry\<in>set (collect_skipped pipeline_id suites []). \<exists>test\<in>set suites.
      snd (snd entry) =
        ''https://git.esss.dk/dmsc-nightly/dmsc-nightly/-/pipelines/'' @ str_int pipeline_id @
        ''/test_report?job_name='' @ quote (ts_name test)) \<and>
   percent_decode (quote name) = Some name \<and>
   (\<forall>c\<in>set (quote name). always_safe c \<or> c = CHR ''/'' \<or> c = CHR ''%'') \<and>
   quote ''A B'' = ''A%20B'' \<and>
   job_name_url pipeline_id ''A B'' =
     ''https://git.esss.dk/dmsc-nightly/dmsc-nightly/-/pipelines/'' @ str_int pipeline_id @
     ''/test_report?job_name=A%20B''"
proof (intro conjI ballI)
  fix entry assume "entry \<in> set (collect_skipped pipeline_id suites [])"
  then show "\<exists>test\<in>set suites.
      snd (snd entry) =
        ''https://git.esss.dk/dmsc-nightly/dmsc-nightly/-/pipelines/'' @ str_int pipeline_id @
        ''/test_report?job_name='' @ quote (ts_name test)"
    by (auto simp: collect_skipped_eq job_name_url_def)
next
  show "percent_decode (quote name) = Some name" by (rule percent_decode_quote)
next
  fix c assume "c \<in> set (quote name)"
  then show "always_safe c \<or> c = CHR ''/'' \<or> c = CHR ''%''" by (rule quote_alphabet)
next
  show "quote ''A B'' = ''A%20B''" by (rule quote_A_B)
  then show "job_name_url pipeline_id ''A B'' =
     ''https://git.esss.dk/dmsc-nightly/dmsc-nightly/-/pipelines/'' @ str_int pipeline_id @
     ''/test_report?job_name=A%20B''"
    by (simp add: job_name_url_def)
qed

subsection \<open>The scenario of one pipeline\<close>

lemma prepare_InrI:
  assumes "get_pipelines env DMSC_NIGHTLY_PROJECT_ID w = (Inr (pipeline, last_50), w1)"
    and "get_jobs env DMSC_NIGHTLY_PROJECT_ID (p_id pipeline) w1 = (Inr jobs, w2)"
    and "bucket_jobs env jobs ([], [], []) w2 = (Inr (success, failed, others), w3)"
    and "run_chart_series env last_50 w3 = (Inr run_chart, w4)"
    and "get_test_report env DMSC_NIGHTLY_PROJECT_ID (p_id pipeline) w4 = (Inr report, w')"
    and "get_template env = Inr template"
    and "fromisoformat (replace_Z (p_updated_at pipeline)) = Inr date"
    and "py_last (map (\<lambda>(i0, i1, i2, i3, i4). i2) run_chart) = Inr last_percentage"
  shows "prepare env w =
     (Inr (template,
        \<lparr>ctx_gitlab_tests = success @ failed @ others,
         ctx_failed_tests = failed,
         ctx_failed_job_percentage = format_2f last_percentage @ ''%'',
         ctx_pipeline_end_time = strftime date @ '' UTC'',
         ctx_teams = TEAMS,
         ctx_failing_test = map (\<lambda>(i0, i1, i2, i3, i4). i3) run_chart,
         ctx_pipeline_run_ids = map (\<lambda>(i0, i1, i2, i3, i4). i0) run_chart,
         ctx_skipped_tests = map (\<lambda>(i0, i1, i2, i3, i4). i4) run_chart,
         ctx_number_of_tests = map (\<lambda>(i0, i1, i2, i3, i4). i1) run_chart,
         ctx_pipeline_id = p_id pipeline,
         ctx_skipped_test_suites = collect_skipped (p_id pipeline) (test_suites report) []\<rparr>),
      w')"
  unfolding prepare_def using assms
  by (simp add: io_bind_def io_external_def io_lift_def io_return_def Let_def)

text \<open>
  Claim C7. With the one pipeline \<open>{id: 42, updated_at: "2024-01-02T03:04:05Z"}\<close> and test
  reports with total 10, failed 2 and skipped 1 (whatever the jobs and the test suites),
  the run reaches the template with the percentage string \<open>20.00%\<close> and the date string
  \<open>January 02, 2024 03:04 AM UTC\<close>.
\<close>

theorem scenario_rendered_strings:
  assumes ps: "response_result (pipelines_api env (length (requests w)) DMSC_NIGHTLY_PROJECT_ID) =
      Inr [\<lparr>p_id = 42, p_updated_at = ''2024-01-02T03:04:05Z''\<rparr>]"
    and rep: "\<And>n. \<exists>r. response_result (test_report_api env n DMSC_NIGHTLY_PROJECT_ID 42) = Inr r \<and>
      total_count r = 10 \<and> failed_count r = 2 \<and> skipped_count r = 1"
    and jobs: "response_result
      (jobs_api env (Suc (length (requests w))) DMSC_NIGHTLY_PROJECT_ID 42) = Inr jobs"
    and tpl: "get_template env = Inr template"
  shows "\<exists>ctx w'. prepare env w = (Inr (template, ctx), w') \<and>
     ctx_failed_job_percentage ctx = ''20.00%'' \<and>
     ctx_pipeline_end_time ctx = ''January 02, 2024 03:04 AM UTC''"
proof -
  let ?p = "\<lparr>p_id = 42, p_updated_at = ''2024-01-02T03:04:05Z''\<rparr>"
  let ?w1 = "w\<lparr>requests := requests w @ [GetPipelines DMSC_NIGHTLY_PROJECT_ID]\<rparr>"
  let ?w2 = "?w1\<lparr>requests := requests ?w1 @ [GetJobs DMSC_NIGHTLY_PROJECT_ID 42]\<rparr>"
  have gp: "get_pipelines env DMSC_NIGHTLY_PROJECT_ID w = (Inr (?p, [42]), ?w1)"
    by (simp add: get_pipelines_eq ps)
  have gj: "get_jobs env DMSC_NIGHTLY_PROJECT_ID 42 ?w1 = (Inr jobs, ?w2)"
    by (simp add: get_jobs_eq jobs)
  obtain s f o' w3 where bj: "bucket_jobs env jobs ([], [], []) ?w2 = (Inr (s, f, o'), w3)"
    by (simp add: bucket_jobs_eq)
  obtain r1 where r1: "response_result
      (test_report_api env (length (requests w3)) DMSC_NIGHTLY_PROJECT_ID 42) = Inr r1"
    "total_count r1 = 10" "failed_count r1 = 2" "skipped_count r1 = 1"
    using rep [of "length (requests w3)"] by blast
  let ?w4 = "w3\<lparr>requests := requests w3 @ [GetTestReport DMSC_NIGHTLY_PROJECT_ID 42]\<rparr>"
  have rc: "run_chart_series env [42] w3 = (Inr [(42, 10, Num False 5 2, 2, 1)], ?w4)"
    by (simp add: run_chart_series_def io_bind_def get_test_report_eq r1 io_lift_def io_return_def
        pct_2_10)
  obtain r2 where r2: "response_result
      (test_report_api env (Suc (length (requests w3))) DMSC_NIGHTLY_PROJECT_ID 42) = Inr r2"
    using rep [of "Suc (length (requests w3))"] by blast
  let ?w5 = "?w4\<lparr>requests := requests ?w4 @ [GetTestReport DMSC_NIGHTLY_PROJECT_ID 42]\<rparr>"
  have gt: "get_test_report env DMSC_NIGHTLY_PROJECT_ID 42 ?w4 = (Inr r2, ?w5)"
    by (simp add: get_test_report_eq r2)
  have date: "fromisoformat (replace_Z (p_updated_at ?p)) =
     Inr \<lparr>dt_year = 2024, dt_month = 1, dt_day = 2, dt_hour = 3, dt_minute = 4, dt_second = 5,
          dt_microsecond = 0, dt_utcoffset = Some 0\<rparr>"
    by (simp add: scenario_date)
  have lp: "py_last (map (\<lambda>(i0, i1, i2, i3, i4). i2) [(42, 10, Num False 5 2, 2, 1)]) =
      Inr (Num False 5 2)"
    by (simp add: py_last_def)
  from gj have gj': "get_jobs env DMSC_NIGHTLY_PROJECT_ID (p_id ?p) ?w1 = (Inr jobs, ?w2)"
    by simp
  from gt have gt': "get_test_report env DMSC_NIGHTLY_PROJECT_ID (p_id ?p) ?w4 = (Inr r2, ?w5)"
    by simp
  note run = prepare_InrI [OF gp gj' bj rc gt' tpl date lp]
  show ?thesis
    by (rule exI, rule exI, rule conjI, rule run) (simp add: format_20 scenario_strftime)
qed

subsection \<open>An empty pipeline list\<close>

text \<open>
  Claim C9. When the pipelines response is an empty list, \<open>get_pipelines\<close> raises
  IndexError and so does the run, after that one request: no other fetch is made, no random
  draw, and no file is written.
\<close>

theorem empty_pipelines_index_error:
  assumes "pipelines_api env (length (requests w)) DMSC_NIGHTLY_PROJECT_ID = Inr resp"
    and "\<not> (400 \<le> status_code resp \<and> status_code resp < 600)"
    and "json resp = Inr []"
  shows "get_pipelines env DMSC_NIGHTLY_PROJECT_ID w =
      (Inl IndexError, w\<lparr>requests := requests w @ [GetPipelines DMSC_NIGHTLY_PROJECT_ID]\<rparr>) \<and>
    main env w =
      (Inl IndexError, w\<lparr>requests := requests w @ [GetPipelines DMSC_NIGHTLY_PROJECT_ID]\<rparr>)"
proof -
  from assms have "response_result
      (pipelines_api env (length (requests w)) DMSC_NIGHTLY_PROJECT_ID) = Inr []"
    by (simp add: response_result_def)
  then have gp: "get_pipelines env DMSC_NIGHTLY_PROJECT_ID w =
      (Inl IndexError, w\<lparr>requests := requests w @ [GetPipelines DMSC_NIGHTLY_PROJECT_ID]\<rparr>)"
    by (simp add: get_pipelines_eq)
  then have "prepare env w =
      (Inl IndexError, w\<lparr>requests := requests w @ [GetPipelines DMSC_NIGHTLY_PROJECT_ID]\<rparr>)"
    by (simp add: prepare_def io_bind_fail)
  then have "main env w =
      (Inl IndexError, w\<lparr>requests := requests w @ [GetPipelines DMSC_NIGHTLY_PROJECT_ID]\<rparr>)"
    by (simp add: main_def io_bind_fail)
  with gp show ?thesis by simp
qed

subsection \<open>HTTP errors abort the run\<close>

lemma aborts_silent:
  assumes "\<And>w r w'. m w = (r, w') \<Longrightarrow> requests w' = requests w \<and> files w' = files w"
  shows "aborts_on_http_error env m"
  unfolding aborts_on_http_error_def using assms by fastforce

lemma aborts_bind:
  assumes m: "aborts_on_http_error env m" and f: "\<And>x. aborts_on_http_error env (f x)"
  shows "aborts_on_http_error env (io_bind m f)"
  unfolding aborts_on_http_error_def
proof (intro allI impI)
  fix w r w'
  assume run: "io_bind m f w = (r, w')"
  obtain r1 w1 where m1: "m w = (r1, w1)" by (cases "m w")
  from m m1 obtain new1 where
    req1: "requests w1 = requests w @ new1" and files1: "files w1 = files w" and
    bad1: "\<And>k code. length (requests w) \<le> k \<Longrightarrow> k < length (requests w1) \<Longrightarrow>
       server_status env k (requests w1 ! k) = Some code \<Longrightarrow> 400 \<le> code \<Longrightarrow> code < 600 \<Longrightarrow>
       r1 = Inl (HTTPError code) \<and> length (requests w1) = Suc k"
    unfolding aborts_on_http_error_def by blast
  show "(\<exists>new. requests w' = requests w @ new) \<and> files w' = files w \<and>
        (\<forall>k code. length (requests w) \<le> k \<and> k < length (requests w') \<and>
           server_status env k (requests w' ! k) = Some code \<and> 400 \<le> code \<and> code < 600 \<longrightarrow>
           r = Inl (HTTPError code) \<and> length (requests w') = Suc k)"
  proof (cases r1)
    case (Inl e)
    with run m1 have r: "r = Inl e" "w' = w1" by (simp_all add: io_bind_def)
    have "r = Inl (HTTPError code) \<and> length (requests w') = Suc k"
      if "length (requests w) \<le> k" "k < length (requests w')"
        "server_status env k (requests w' ! k) = Some code" "400 \<le> code" "code < 600"
      for k code
      using bad1 [of k code] that r Inl by simp
    with req1 files1 r show ?thesis by blast
  next
    case (Inr x)
    with run m1 have f1: "f x w1 = (r, w')" by (simp add: io_bind_def)
    from f [of x] f1 obtain new2 where
      req2: "requests w' = requests w1 @ new2" and files2: "files w' = files w1" and
      bad2: "\<And>k code. length (requests w1) \<le> k \<Longrightarrow> k < length (requests w') \<Longrightarrow>
         server_status env k (requests w' ! k) = Some code \<Longrightarrow> 400 \<le> code \<Longrightarrow> code < 600 \<Longrightarrow>
         r = Inl (HTTPError code) \<and> length (requests w') = Suc k"
      unfolding aborts_on_http_error_def by blast
    have "r = Inl (HTTPError code) \<and> length (requests w') = Suc k"
      if k: "length (requests w) \<le> k" "k < length (requests w')" and
        st: "server_status env k (requests w' ! k) = Some code" "400 \<le> code" "code < 600"
      for k code
    proof (cases "k < length (requests w1)")
      case True
      then have "requests w' ! k = requests w1 ! k" by (simp add: req2 nth_append)
      with bad1 [OF k(1) True _ st(2,3)] st(1) Inr show ?thesis by simp
    next
      case False
      then show ?thesis using bad2 [OF _ k(2) st] by simp
    qed
    with req1 req2 files1 files2 show ?thesis by auto
  qed
qed

lemma aborts_single:
  assumes run: "\<And>w. m w = (res w, w\<lparr>requests := requests w @ [req]\<rparr>)"
    and bad: "\<And>w code. server_status env (length (requests w)) req = Some code \<Longrightarrow>
      400 \<le> code \<Longrightarrow> code < 600 \<Longrightarrow> res w = Inl (HTTPError code)"
  shows "aborts_on_http_error env m"
  unfolding aborts_on_http_error_def
proof (intro allI impI conjI)
  fix w r w'
  assume "m w = (r, w')"
  with run [of w] have r: "r = res w" and w': "w' = w\<lparr>requests := requests w @ [req]\<rparr>"
    by simp_all
  show "\<exists>new. requests w' = requests w @ new" "files w' = files w"
    by (simp_all add: w')
  fix k code
  assume "length (requests w) \<le> k \<and> k < length (requests w') \<and>
    server_status env k (requests w' ! k) = Some code \<and> 400 \<le> code \<and> code < 600"
  moreover from this have k: "k = length (requests w)" by (simp add: w')
  ultimately have "server_status env (length (requests w)) req = Some code" "400 \<le> code"
    "code < 600"
    by (simp_all add: w')
  from bad [OF this] show "r = Inl (HTTPError code)" by (simp add: r)
  show "length (requests w') = Suc k" by (simp add: w' k)
qed

lemma aborts_get_pipelines: "aborts_on_http_error env (get_pipelines env p)"
  by (rule aborts_single [OF get_pipelines_eq])
    (auto simp: response_result_def split: sum.splits)

lemma aborts_get_jobs: "aborts_on_http_error env (get_jobs env p i)"
  by (rule aborts_single [OF get_jobs_eq])
    (auto simp: response_result_def split: sum.splits)

lemma aborts_get_test_report: "aborts_on_http_error env (get_test_report env p i)"
  by (rule aborts_single [OF get_test_report_eq])
    (auto simp: response_result_def split: sum.splits)

lemma aborts_bucket_jobs: "aborts_on_http_error env (bucket_jobs env jobs acc)"
  by (cases acc) (auto intro!: aborts_silent simp: bucket_jobs_eq)

lemma aborts_lift: "aborts_on_http_error env (io_lift r)"
  by (auto intro!: aborts_silent simp: io_lift_def)

lemma aborts_external: "aborts_on_http_error env (io_external r)"
  by (auto intro!: aborts_silent simp: io_external_def split: sum.splits)

lemma aborts_return: "aborts_on_http_error env (io_return x)"
  by (auto intro!: aborts_silent simp: io_return_def)

lemma aborts_build_run_chart: "aborts_on_http_error env (build_run_chart env pids acc)"
proof (induction pids arbitrary: acc)
  case Nil
  show ?case by (simp add: aborts_return)
next
  case (Cons pid pids)
  show ?case
    by (simp add: Let_def) (intro aborts_bind aborts_get_test_report aborts_lift Cons.IH)
qed

lemma aborts_run_chart_series: "aborts_on_http_error env (run_chart_series env pids)"
  unfolding run_chart_series_def by (intro aborts_bind aborts_build_run_chart aborts_return)

lemma aborts_case_prod:
  "(\<And>a b. aborts_on_http_error env (f a b)) \<Longrightarrow> aborts_on_http_error env (case_prod f x)"
  by (cases x) simp

lemma aborts_prepare: "aborts_on_http_error env (prepare env)"
  unfolding prepare_def Let_def
  by (intro aborts_bind aborts_case_prod aborts_get_pipelines aborts_get_jobs aborts_bucket_jobs
      aborts_run_chart_series aborts_get_test_report aborts_external aborts_lift aborts_return)

lemma main_cases:
  assumes "main env w = (r, w')"
  shows "(\<exists>e. r = Inl e \<and> prepare env w = (Inl e, w')) \<or>
    (\<exists>x w1. prepare env w = (Inr x, w1) \<and> requests w' = requests w1)"
  using assms
  by (auto simp: main_def io_bind_def io_external_def write_file_def
      split: prod.splits sum.splits if_splits)

text \<open>
  Claim C8, amended. A response with a status from 400 to 599 makes each of the three API
  functions raise HTTPError after its one request. In a run, the request that got such a
  response is the last request (so there is no retry and no later fetch), the run ends with
  that HTTPError, and the files are unchanged.
\<close>

theorem http_error_aborts_run:
  "(pipelines_api env (length (requests w)) p = Inr resp \<and>
      400 \<le> status_code resp \<and> status_code resp < 600 \<longrightarrow>
      get_pipelines env p w =
        (Inl (HTTPError (status_code resp)), w\<lparr>requests := requests w @ [GetPipelines p]\<rparr>)) \<and>
   (jobs_api env (length (requests w)) p i = Inr resp' \<and>
      400 \<le> status_code resp' \<and> status_code resp' < 600 \<longrightarrow>
      get_jobs env p i w =
        (Inl (HTTPError (status_code resp')), w\<lparr>requests := requests w @ [GetJobs p i]\<rparr>)) \<and>
   (test_report_api env (length (requests w)) p i = Inr resp'' \<and>
      400 \<le> status_code resp'' \<and> status_code resp'' < 600 \<longrightarrow>
      get_test_report env p i w =
        (Inl (HTTPError (status_code resp'')), w\<lparr>requests := requests w @ [GetTestReport p i]\<rparr>)) \<and>
   (main env w = (r, w') \<and> length (requests w) \<le> k \<and> k < length (requests w') \<and>
      server_status env k (requests w' ! k) = Some code \<and> 400 \<le> code \<and> code < 600 \<longrightarrow>
      r = Inl (HTTPError code) \<and> length (requests w') = Suc k \<and> files w' = files w)"
proof (intro conjI impI)
  assume "pipelines_api env (length (requests w)) p = Inr resp \<and>
      400 \<le> status_code resp \<and> status_code resp < 600"
  then show "get_pipelines env p w =
        (Inl (HTTPError (status_code resp)), w\<lparr>requests := requests w @ [GetPipelines p]\<rparr>)"
    by (simp add: get_pipelines_eq response_result_def)
next
  assume "jobs_api env (length (requests w)) p i = Inr resp' \<and>
      400 \<le> status_code resp' \<and> status_code resp' < 600"
  then show "get_jobs env p i w =
        (Inl (HTTPError (status_code resp')), w\<lparr>requests := requests w @ [GetJobs p i]\<rparr>)"
    by (simp add: get_jobs_eq response_result_def)
next
  assume "test_report_api env (length (requests w)) p i = Inr resp'' \<and>
      400 \<le> status_code resp'' \<and> status_code resp'' < 600"
  then show "get_test_report env p i w =
        (Inl (HTTPError (status_code resp'')), w\<lparr>requests := requests w @ [GetTestReport p i]\<rparr>)"
    by (simp add: get_test_report_eq response_result_def)
next
  assume a: "main env w = (r, w') \<and> length (requests w) \<le> k \<and> k < length (requests w') \<and>
      server_status env k (requests w' ! k) = Some code \<and> 400 \<le> code \<and> code < 600"
  have prep: "r1 = Inl (HTTPError code) \<and> length (requests w1) = Suc k \<and> files w1 = files w"
    if "prepare env w = (r1, w1)" "requests w' = requests w1" for r1 w1
    using aborts_prepare [of env] that a unfolding aborts_on_http_error_def by metis
  from main_cases [of env w r w'] a consider
    (failed) e where "r = Inl e" "prepare env w = (Inl e, w')" |
    (rendered) x w1 where "prepare env w = (Inr x, w1)" "requests w' = requests w1"
    by blast
  then have "r = Inl (HTTPError code) \<and> length (requests w') = Suc k \<and> files w' = files w"
  proof cases
    case failed
    from prep [OF failed(2)] failed(1) show ?thesis by simp
  next
    case rendered
    from prep [OF rendered] show ?thesis by simp
  qed
  then show "r = Inl (HTTPError code)" "length (requests w') = Suc k" "files w' = files w"
    by simp_all
qed

subsection \<open>Runs of the example servers\<close>

lemma demo_writable: "writable (demo_env code ps) f"
  by (simp add: demo_env_def)

lemma demo_main_one:
  "code < 400 \<Longrightarrow>
   main (demo_env code one_pipeline) world0 =
     (Inr (),
      \<lparr>requests = [GetPipelines 301, GetJobs 301 42, GetTestReport 301 42, GetTestReport 301 42],
       draws = 6,
       files = [''render/rendered.html'' \<mapsto> ''20.00% January 02, 2024 03:04 AM UTC'']\<rparr>)"
  by (simp add: main_def io_bind_def demo_prepare_one demo_template_def demo_context_def
      io_external_def write_file_def demo_writable)

lemma flaky_main:
  "main flaky_env world0 =
     (Inl (HTTPError 500),
      \<lparr>requests = [GetPipelines 301, GetJobs 301 42, GetTestReport 301 42, GetTestReport 301 41],
       draws = 6, files = Map.empty\<rparr>)"
proof -
  have gp: "get_pipelines flaky_env DMSC_NIGHTLY_PROJECT_ID w =
      (Inr (\<lparr>p_id = 42, p_updated_at = ''2024-01-02T03:04:05Z''\<rparr>, [42, 41, 40]),
       w\<lparr>requests := requests w @ [GetPipelines 301]\<rparr>)" for w
    by (simp add: get_pipelines_eq response_result_def flaky_env_def demo_env_def
        three_pipelines_def DMSC_NIGHTLY_PROJECT_ID_def)
  have gj: "get_jobs flaky_env DMSC_NIGHTLY_PROJECT_ID i w =
      (Inr demo_jobs, w\<lparr>requests := requests w @ [GetJobs 301 i]\<rparr>)" for i w
    by (simp add: get_jobs_eq response_result_def flaky_env_def demo_env_def
        DMSC_NIGHTLY_PROJECT_ID_def)
  have bj: "draws w = 0 \<Longrightarrow> bucket_jobs flaky_env demo_jobs ([], [], []) w =
      (Inr ([demo_all_jobs ! 0], [demo_all_jobs ! 1], [demo_all_jobs ! 2]), w\<lparr>draws := 6\<rparr>)" for w
    by (subst bucket_jobs_eq)
      (simp add: demo_jobs_def demo_all_jobs_def team_label_def flaky_env_def demo_env_def
        TEAMS_def)
  have gt: "get_test_report flaky_env DMSC_NIGHTLY_PROJECT_ID i w =
      ((if i = 41 then Inl (HTTPError 500) else Inr (demo_report i)),
       w\<lparr>requests := requests w @ [GetTestReport 301 i]\<rparr>)" for i w
    by (simp add: get_test_report_eq response_result_def flaky_env_def demo_env_def
        DMSC_NIGHTLY_PROJECT_ID_def)
  show ?thesis
    by (simp add: main_def prepare_def io_bind_def gp gj bj gt run_chart_series_def demo_report_def
        io_lift_def io_return_def pct_2_10 world0_def)
qed

subsection \<open>Instances of the theorems\<close>

theorem failed_percentage_guarded_witness:
  "fst (run_chart_series (demo_env 200 three_pipelines) [42, 41, 40] world0) \<noteq>
     Inl ZeroDivisionError \<and>
   fst (main (demo_env 200 three_pipelines) world0) \<noteq> Inl ZeroDivisionError \<and>
   (\<exists>r pct.
      response_result (test_report_api (demo_env 200 three_pipelines) 1 DMSC_NIGHTLY_PROJECT_ID 41) =
        Inr r \<and>
      total_count r = 0 \<and>
      rev [(40, 8, Num False 25 (- 1), 1, 3), (41, 0, float_zero, 0, 0), (42, 10, Num False 5 2, 2, 1)] ! 1 =
        (41, 0, pct, 0, 0) \<and>
      pct = float_zero)"
proof -
  let ?env = "demo_env 200 three_pipelines"
  let ?chart = "[(40, 8, Num False 25 (- 1), 1, 3), (41, 0, float_zero, 0, 0),
    (42, 10, Num False 5 2, 2, 1)] :: run_tuple list"
  note inst = failed_percentage_guarded [of ?env "[42, 41, 40]" world0 ?chart
      "world0\<lparr>requests := requests world0 @
         [GetTestReport 301 42, GetTestReport 301 41, GetTestReport 301 40]\<rparr>"]
  from inst have a: "fst (run_chart_series ?env [42, 41, 40] world0) \<noteq> Inl ZeroDivisionError"
    and b: "fst (main ?env world0) \<noteq> Inl ZeroDivisionError"
    by blast+
  from inst demo_series [of world0] have "\<forall>i<length [42, 41, 40 :: int]. \<exists>r pct.
         response_result
           (test_report_api ?env (length (requests world0) + i) DMSC_NIGHTLY_PROJECT_ID
              ([42, 41, 40] ! i)) = Inr r \<and>
         rev ?chart ! i = ([42, 41, 40] ! i, total_count r, pct, failed_count r, skipped_count r) \<and>
         (total_count r = 0 \<longrightarrow> pct = float_zero) \<and>
         (total_count r \<noteq> 0 \<longrightarrow>
            (\<exists>q. py_truediv (failed_count r) (total_count r) = Inr q \<and>
                 pct = py_float_mul q float_100))"
    by blast
  then have "\<exists>r pct.
         response_result
           (test_report_api ?env (length (requests world0) + 1) DMSC_NIGHTLY_PROJECT_ID
              ([42, 41, 40] ! 1)) = Inr r \<and>
         rev ?chart ! 1 = ([42, 41, 40] ! 1, total_count r, pct, failed_count r, skipped_count r) \<and>
         (total_count r = 0 \<longrightarrow> pct = float_zero) \<and>
         (total_count r \<noteq> 0 \<longrightarrow>
            (\<exists>q. py_truediv (failed_count r) (total_count r) = Inr q \<and>
                 pct = py_float_mul q float_100))"
    by (elim allE [of _ 1]) simp
  then obtain r pct where
    r: "response_result (test_report_api ?env 1 DMSC_NIGHTLY_PROJECT_ID 41) = Inr r" and
    t: "rev ?chart ! 1 = (41, total_count r, pct, failed_count r, skipped_count r)" and
    z: "total_count r = 0 \<longrightarrow> pct = float_zero"
    by (auto simp: world0_def)
  from r have "r = demo_report 41"
    by (simp add: response_result_def demo_env_def)
  then have "total_count r = 0" "failed_count r = 0" "skipped_count r = 0"
    by (simp_all add: demo_report_def)
  with r t z a b show ?thesis by auto
qed

theorem combined_job_list_order_witness:
  "\<exists>jobs objs.
     response_result (jobs_api (demo_env 200 three_pipelines) 1 DMSC_NIGHTLY_PROJECT_ID 42) = Inr jobs \<and>
     map j_name jobs = [''test'', ''deploy'', ''build''] \<and>
     length objs = length jobs \<and>
     ctx_gitlab_tests (demo_context [40, 41, 42] [8, 0, 10] [1, 0, 2] [3, 0, 1]) =
       filter (\<lambda>b. job_run_status b = ''success'') objs @
       filter (\<lambda>b. job_run_status b = ''failed'') objs @
       map (\<lambda>b. b\<lparr>job_run_status := []\<rparr>)
         (filter (\<lambda>b. job_run_status b \<noteq> ''success'' \<and> job_run_status b \<noteq> ''failed'') objs) \<and>
     map job_name (ctx_gitlab_tests (demo_context [40, 41, 42] [8, 0, 10] [1, 0, 2] [3, 0, 1])) =
       [''build'', ''test'', ''deploy'']"
proof -
  let ?ctx = "demo_context [40, 41, 42] [8, 0, 10] [1, 0, 2] [3, 0, 1]"
  from combined_job_list_order [OF demo_prepare_three] obtain jobs objs where
    jobs: "response_result
       (jobs_api (demo_env 200 three_pipelines) (Suc (length (requests world0)))
          DMSC_NIGHTLY_PROJECT_ID (ctx_pipeline_id ?ctx)) = Inr jobs" and
    len: "length objs = length jobs" and
    all: "ctx_gitlab_tests ?ctx =
       filter (\<lambda>b. job_run_status b = ''success'') objs @
       filter (\<lambda>b. job_run_status b = ''failed'') objs @
       map (\<lambda>b. b\<lparr>job_run_status := []\<rparr>)
         (filter (\<lambda>b. job_run_status b \<noteq> ''success'' \<and> job_run_status b \<noteq> ''failed'') objs)"
    by blast
  from jobs have j1: "response_result
      (jobs_api (demo_env 200 three_pipelines) 1 DMSC_NIGHTLY_PROJECT_ID 42) = Inr jobs"
    by (simp add: world0_def demo_context_def)
  then have "jobs = demo_jobs"
    by (simp add: response_result_def demo_env_def)
  then have names: "map j_name jobs = [''test'', ''deploy'', ''build'']"
    by (simp add: demo_jobs_def)
  have shown: "map job_name (ctx_gitlab_tests ?ctx) = [''build'', ''test'', ''deploy'']"
    by (simp add: demo_context_def demo_all_jobs_def)
  from j1 names len all shown show ?thesis
    by (intro exI [of _ jobs] exI [of _ objs] conjI)
qed

theorem run_chart_is_reversed_fetch_order_witness:
  "sorted_wrt (>) [42, 41, 40 :: int] \<and>
   (\<exists>run_chart w'.
      run_chart_series (demo_env 200 three_pipelines) [42, 41, 40] world0 = (Inr run_chart, w') \<and>
      map fst run_chart = [40, 41, 42] \<and>
      sorted_wrt (<) (map fst run_chart) \<and>
      (\<exists>tuples. run_chart = rev tuples \<and> length tuples = 3))"
proof -
  let ?chart = "[(40, 8, Num False 25 (- 1), 1, 3), (41, 0, float_zero, 0, 0),
    (42, 10, Num False 5 2, 2, 1)] :: run_tuple list"
  from run_chart_is_reversed_fetch_order [OF demo_series [of world0]] obtain tuples where
    len: "length tuples = length [42, 41, 40 :: int]" and rc: "?chart = rev tuples" and
    srt: "sorted_wrt (>) [42, 41, 40 :: int] \<longrightarrow> sorted_wrt (<) (map fst ?chart)"
    by blast
  have desc: "sorted_wrt (>) [42, 41, 40 :: int]" by simp
  with srt have asc: "sorted_wrt (<) (map fst ?chart)" by (rule mp)
  have ids: "map fst ?chart = [40, 41, 42]" by simp
  from len have len3: "length tuples = 3" by simp
  from rc len3 have "\<exists>tuples. ?chart = rev tuples \<and> length tuples = 3" by blast
  with demo_series [of world0] ids asc have "\<exists>run_chart w'.
      run_chart_series (demo_env 200 three_pipelines) [42, 41, 40] world0 = (Inr run_chart, w') \<and>
      map fst run_chart = [40, 41, 42] \<and>
      sorted_wrt (<) (map fst run_chart) \<and>
      (\<exists>tuples. run_chart = rev tuples \<and> length tuples = 3)"
    by - (rule exI [of _ ?chart], rule exI, intro conjI)
  with desc show ?thesis by (rule conjI)
qed

theorem chart_arrays_nonempty_witness:
  "(\<exists>pipeline w1.
      get_pipelines (demo_env 200 three_pipelines) DMSC_NIGHTLY_PROJECT_ID world0 =
        (Inr (pipeline, [42, 41, 40]), w1) \<and>
      p_id pipeline = 42) \<and>
   (\<exists>run_chart w4 p.
      run_chart_series (demo_env 200 three_pipelines) [42, 41, 40] world0 = (Inr run_chart, w4) \<and>
      length run_chart = 3 \<and>
      py_last (map (\<lambda>(i0, i1, i2, i3, i4). i2) run_chart) = Inr p) \<and>
   length (ctx_pipeline_run_ids (demo_context [40, 41, 42] [8, 0, 10] [1, 0, 2] [3, 0, 1])) = 3 \<and>
   fst (prepare (demo_env 200 three_pipelines) world0) \<noteq> Inl IndexError"
proof -
  let ?env = "demo_env 200 three_pipelines"
  let ?p = "\<lparr>p_id = 42, p_updated_at = ''2024-01-02T03:04:05Z''\<rparr>"
  let ?chart = "[(40, 8, Num False 25 (- 1), 1, 3), (41, 0, float_zero, 0, 0),
    (42, 10, Num False 5 2, 2, 1)] :: run_tuple list"
  have gp: "get_pipelines ?env DMSC_NIGHTLY_PROJECT_ID world0 =
      (Inr (?p, [42, 41, 40]), world0\<lparr>requests := requests world0 @ [GetPipelines 301]\<rparr>)"
    unfolding three_pipelines_def by (simp add: demo_get_pipelines)
  note inst = chart_arrays_nonempty [of ?env world0 ?p "[42, 41, 40]"
      "world0\<lparr>requests := requests world0 @ [GetPipelines 301]\<rparr>" world0 ?chart
      "world0\<lparr>requests := requests world0 @
         [GetTestReport 301 42, GetTestReport 301 41, GetTestReport 301 40]\<rparr>"
      demo_template "demo_context [40, 41, 42] [8, 0, 10] [1, 0, 2] [3, 0, 1]"
      "\<lparr>requests = [GetPipelines 301, GetJobs 301 42, GetTestReport 301 42, GetTestReport 301 41,
                   GetTestReport 301 40, GetTestReport 301 42],
       draws = 6, files = Map.empty\<rparr>"]
  note i1 = conjunct1 [OF inst, THEN mp, OF gp]
  note i2 = conjunct2 [OF conjunct2 [OF i1], THEN mp, OF demo_series [of world0]]
  note i3 = conjunct1 [OF conjunct2 [OF inst], THEN mp, OF demo_prepare_three]
  from i1 have a: "p_id ?p = 42" by simp
  from i2 have b: "length ?chart = 3" and
    c: "\<exists>p. py_last (map (\<lambda>(i0, i1, i2, i3, i4). i2) ?chart) = Inr p"
    by simp_all
  from i3 gp have d: "length (ctx_pipeline_run_ids
      (demo_context [40, 41, 42] [8, 0, 10] [1, 0, 2] [3, 0, 1])) = 3"
    by auto
  have e: "fst (prepare ?env world0) \<noteq> Inl IndexError"
    by (simp add: demo_prepare_three)
  from c obtain p where p: "py_last (map (\<lambda>(i0, i1, i2, i3, i4). i2) ?chart) = Inr p" ..
  from gp a have g1: "\<exists>pipeline w1.
      get_pipelines ?env DMSC_NIGHTLY_PROJECT_ID world0 = (Inr (pipeline, [42, 41, 40]), w1) \<and>
      p_id pipeline = 42"
    by (intro exI [of _ ?p] exI conjI)
  from demo_series [of world0] b p have g2: "\<exists>run_chart w4 p.
      run_chart_series ?env [42, 41, 40] world0 = (Inr run_chart, w4) \<and>
      length run_chart = 3 \<and>
      py_last (map (\<lambda>(i0, i1, i2, i3, i4). i2) run_chart) = Inr p"
    by (intro exI [of _ ?chart] exI [of _ p] exI conjI)
  from g1 g2 d e show ?thesis by (intro conjI)
qed

theorem skipped_table_complete_witness:
  "collect_skipped 42 (test_suites (demo_report 42)) [] =
     [(''C1'', ''t1'',
       ''https://git.esss.dk/dmsc-nightly/dmsc-nightly/-/pipelines/42/test_report?job_name=A%20B'')] \<and>
   map tc_status (ts_test_cases (hd (test_suites (demo_report 42)))) = [''skipped'', ''success''] \<and>
   (\<exists>report.
      response_result (test_report_api (demo_env 200 one_pipeline) 3 DMSC_NIGHTLY_PROJECT_ID 42) =
        Inr report \<and>
      ctx_skipped_test_suites (demo_context [42] [10] [2] [1]) =
        collect_skipped 42 (test_suites report) [])"
proof -
  let ?suites = "test_suites (demo_report 42)"
  let ?ctx = "demo_context [42] [10] [2] [1]"
  let ?w' = "\<lparr>requests = [GetPipelines 301, GetJobs 301 42, GetTestReport 301 42, GetTestReport 301 42],
       draws = 6, files = Map.empty\<rparr>"
  note inst = skipped_table_complete [of 42 ?suites _ "demo_env 200 one_pipeline" world0
      demo_template ?ctx ?w']
  from conjunct1 [OF inst] have a: "collect_skipped 42 ?suites [] =
     [(''C1'', ''t1'',
       ''https://git.esss.dk/dmsc-nightly/dmsc-nightly/-/pipelines/42/test_report?job_name=A%20B'')]"
    by (simp add: demo_report_def url_42)
  have b: "map tc_status (ts_test_cases (hd ?suites)) = [''skipped'', ''success'']"
    by (simp add: demo_report_def)
  have run: "prepare (demo_env 200 one_pipeline) world0 = (Inr (demo_template, ?ctx), ?w')"
    by (simp add: demo_prepare_one)
  from conjunct2 [OF conjunct2 [OF inst], THEN mp, OF run] obtain report where
    "response_result
       (test_report_api (demo_env 200 one_pipeline) (length (requests ?w') - 1)
          DMSC_NIGHTLY_PROJECT_ID (ctx_pipeline_id ?ctx)) = Inr report"
    "ctx_skipped_test_suites ?ctx = collect_skipped (ctx_pipeline_id ?ctx) (test_suites report) []"
    by blast
  then have "response_result
       (test_report_api (demo_env 200 one_pipeline) 3 DMSC_NIGHTLY_PROJECT_ID 42) = Inr report"
    "ctx_skipped_test_suites ?ctx = collect_skipped 42 (test_suites report) []"
    by (simp_all add: demo_context_def numeral_3_eq_3)
  then have c: "\<exists>report.
      response_result (test_report_api (demo_env 200 one_pipeline) 3 DMSC_NIGHTLY_PROJECT_ID 42) =
        Inr report \<and>
      ctx_skipped_test_suites ?ctx = collect_skipped 42 (test_suites report) []"
    by blast
  from a b c show ?thesis by (intro conjI)
qed

theorem suite_name_percent_encoded_witness:
  "snd (snd (hd (collect_skipped 42 (test_suites (demo_report 42)) []))) =
     ''https://git.esss.dk/dmsc-nightly/dmsc-nightly/-/pipelines/42/test_report?job_name=A%20B'' \<and>
   quote ''a/b c&d=e%~'' = ''a/b%20c%26d%3De%25~'' \<and>
   percent_decode ''a/b%20c%26d%3De%25~'' = Some ''a/b c&d=e%~'' \<and>
   CHR '' '' \<notin> set (quote ''a/b c&d=e%~'') \<and>
   job_name_url 42 ''A B'' =
     ''https://git.esss.dk/dmsc-nightly/dmsc-nightly/-/pipelines/42/test_report?job_name=A%20B''"
proof -
  let ?suites = "test_suites (demo_report 42)"
  let ?name = "''a/b c&d=e%~''"
  note inst = suite_name_percent_encoded [of 42 ?suites ?name]
  have q: "quote ?name = ''a/b%20c%26d%3De%25~''"
    by code_simp
  have entries: "collect_skipped 42 ?suites [] =
     [(''C1'', ''t1'', job_name_url 42 ''A B'')]"
    by (simp add: demo_report_def)
  from conjunct1 [OF inst] have "\<exists>test\<in>set ?suites.
      snd (snd (hd (collect_skipped 42 ?suites []))) =
        ''https://git.esss.dk/dmsc-nightly/dmsc-nightly/-/pipelines/'' @ str_int 42 @
        ''/test_report?job_name='' @ quote (ts_name test)"
    by (simp add: entries)
  then have a: "snd (snd (hd (collect_skipped 42 ?suites []))) =
     ''https://git.esss.dk/dmsc-nightly/dmsc-nightly/-/pipelines/42/test_report?job_name=A%20B''"
    by (simp add: demo_report_def entries url_42)
  from conjunct1 [OF conjunct2 [OF inst]] have b: "percent_decode ''a/b%20c%26d%3De%25~'' = Some ?name"
    by (simp only: q)
  from conjunct1 [OF conjunct2 [OF conjunct2 [OF inst]]]
  have "\<not> (always_safe CHR '' '' \<or> CHR '' '' = CHR ''/'' \<or> CHR '' '' = CHR ''%'') \<longrightarrow>
      CHR '' '' \<notin> set (quote ?name)"
    by blast
  then have c: "CHR '' '' \<notin> set (quote ?name)"
    by (simp add: always_safe_def)
  from conjunct2 [OF conjunct2 [OF conjunct2 [OF conjunct2 [OF inst]]]]
  have d: "job_name_url 42 ''A B'' =
     ''https://git.esss.dk/dmsc-nightly/dmsc-nightly/-/pipelines/42/test_report?job_name=A%20B''"
    by (simp add: url_42)
  from a q b c d show ?thesis by (intro conjI)
qed

theorem scenario_rendered_strings_witness:
  "\<exists>ctx w'. prepare (demo_env 200 one_pipeline) world0 = (Inr (demo_template, ctx), w') \<and>
     ctx_failed_job_percentage ctx = ''20.00%'' \<and>
     ctx_pipeline_end_time ctx = ''January 02, 2024 03:04 AM UTC''"
proof (rule scenario_rendered_strings [of "demo_env 200 one_pipeline" world0 demo_jobs])
  show "response_result
      (pipelines_api (demo_env 200 one_pipeline) (length (requests world0)) DMSC_NIGHTLY_PROJECT_ID) =
      Inr [\<lparr>p_id = 42, p_updated_at = ''2024-01-02T03:04:05Z''\<rparr>]"
    by (simp add: response_result_def demo_env_def one_pipeline_def)
  show "\<exists>r. response_result
        (test_report_api (demo_env 200 one_pipeline) n DMSC_NIGHTLY_PROJECT_ID 42) = Inr r \<and>
      total_count r = 10 \<and> failed_count r = 2 \<and> skipped_count r = 1" for n
    by (simp add: response_result_def demo_env_def demo_report_def)
  show "response_result
      (jobs_api (demo_env 200 one_pipeline) (Suc (length (requests world0)))
         DMSC_NIGHTLY_PROJECT_ID 42) = Inr demo_jobs"
    by (simp add: response_result_def demo_env_def)
  show "get_template (demo_env 200 one_pipeline) = Inr demo_template"
    by (simp add: demo_env_def)
qed

theorem empty_pipelines_index_error_witness:
  "get_pipelines (demo_env 200 []) DMSC_NIGHTLY_PROJECT_ID world0 =
     (Inl IndexError, \<lparr>requests = [GetPipelines 301], draws = 0, files = Map.empty\<rparr>) \<and>
   main (demo_env 200 []) world0 =
     (Inl IndexError, \<lparr>requests = [GetPipelines 301], draws = 0, files = Map.empty\<rparr>)"
proof -
  have "pipelines_api (demo_env 200 []) (length (requests world0)) DMSC_NIGHTLY_PROJECT_ID =
      Inr \<lparr>status_code = 200, json = Inr []\<rparr>"
    by (simp add: demo_env_def)
  from empty_pipelines_index_error [OF this] show ?thesis
    by (simp add: world0_def DMSC_NIGHTLY_PROJECT_ID_def)
qed

theorem http_error_aborts_run_witness:
  "get_test_report flaky_env 301 41 world0 =
     (Inl (HTTPError 500), world0\<lparr>requests := requests world0 @ [GetTestReport 301 41]\<rparr>) \<and>
   server_status flaky_env 3 (requests (snd (main flaky_env world0)) ! 3) = Some 500 \<and>
   fst (main flaky_env world0) = Inl (HTTPError 500) \<and>
   length (requests (snd (main flaky_env world0))) = 4 \<and>
   files (snd (main flaky_env world0)) = files world0"
proof -
  let ?w' = "\<lparr>requests = [GetPipelines 301, GetJobs 301 42, GetTestReport 301 42, GetTestReport 301 41],
       draws = 6, files = Map.empty\<rparr>"
  let ?resp = "\<lparr>status_code = 500, json = Inr (demo_report 41)\<rparr>"
  note inst = http_error_aborts_run [of flaky_env world0 301 _ 41 _ ?resp "Inl (HTTPError 500)" ?w'
      3 500]
  have "test_report_api flaky_env (length (requests world0)) 301 41 = Inr ?resp \<and>
      400 \<le> status_code ?resp \<and> status_code ?resp < 600"
    by (simp add: flaky_env_def)
  from conjunct1 [OF conjunct2 [OF conjunct2 [OF inst]], THEN mp, OF this]
  have a: "get_test_report flaky_env 301 41 world0 =
     (Inl (HTTPError 500), world0\<lparr>requests := requests world0 @ [GetTestReport 301 41]\<rparr>)"
    by simp
  have st: "server_status flaky_env 3 (requests ?w' ! 3) = Some 500"
    by (simp add: flaky_env_def)
  have len: "length (requests world0) \<le> 3"
    by (simp add: world0_def)
  have "main flaky_env world0 = (Inl (HTTPError 500), ?w') \<and> length (requests world0) \<le> 3 \<and>
      3 < length (requests ?w') \<and> server_status flaky_env 3 (requests ?w' ! 3) = Some 500 \<and>
      (400 :: nat) \<le> 500 \<and> (500 :: nat) < 600"
    using flaky_main len st by (intro conjI) simp_all
  from conjunct2 [OF conjunct2 [OF conjunct2 [OF inst]], THEN mp, OF this]
  have b: "length (requests ?w') = Suc 3 \<and> files ?w' = files world0"
    by simp
  from a st b show ?thesis
    by (simp add: flaky_main)
qed

text \<open>
  A status outside 200 to 299 that is not an error for \<open>raise_for_status\<close>: every response
  of this server has status 300 (Multiple Choices) and a JSON body. The run raises nothing
  and writes the file.
\<close>

theorem non_2xx_response_accepted_counterexample:
  "pipelines_api (demo_env 300 one_pipeline) 0 DMSC_NIGHTLY_PROJECT_ID =
     Inr \<lparr>status_code = 300, json = Inr one_pipeline\<rparr> \<and>
   \<not> (200 \<le> (300 :: nat) \<and> (300 :: nat) < 300) \<and>
   main (demo_env 300 one_pipeline) world0 =
     (Inr (),
      \<lparr>requests = [GetPipelines 301, GetJobs 301 42, GetTestReport 301 42, GetTestReport 301 42],
       draws = 6,
       files = [''render/rendered.html'' \<mapsto> ''20.00% January 02, 2024 03:04 AM UTC'']\<rparr>)"
  by (simp add: demo_main_one) (simp add: demo_env_def)

end
